theory Spec2Isabelle
  imports Main
begin

section \<open>WealthFlow server: a shallow embedding of \<open>server.py\<close>\<close>

text \<open>
  The server authenticates users, keeps per-user JSON values under string keys in a
  relational database (SQLite or Postgres), and relays chat messages. Each request handler
  of \<open>server.py\<close> becomes a function from the application state (the database and the
  caller's session) and the request to a result and the new state. An exception that leaves
  a handler is the value \<open>Inl e\<close>; Flask turns it into a response with status 500.

  What lies outside the repository is a parameter or a small model:
  \<^item> \<open>json.dumps\<close>, \<open>json.loads\<close>, \<open>generate_password_hash\<close>, \<open>check_password_hash\<close> and
    the generative model are fields of the record \<open>env\<close>, next to the two environment
    variables the handlers read; the serializer and the decoder of the module \<open>json\<close>
    are modelled as well, for the environment in which the two fields are these;
  \<^item> the database engine is modelled for the statements this program issues, on the schema
    that \<open>init_db\<close> creates; connecting and closing do not fail, and \<open>commit()\<close> and
    \<open>rollback()\<close> raise the exception recorded in the connection, if there is one (a
    connection is opened with none);
  \<^item> the arithmetic of floats is not modelled: the conversions between a finite double
    and its text are parameters; the column \<open>created_at\<close> is left out (it is never read
    by a handler);
  \<^item> a request body is the record of the fields the handler reads, each given as a
    string (a JSON value for \<open>value\<close>) or missing; the URL parameter \<open>key\<close> is a string.
\<close>

subsection \<open>Python strings\<close>

text \<open>\<open>s.startswith(p)\<close>.\<close>

fun startswith :: "string \<Rightarrow> string \<Rightarrow> bool" where
  "startswith s [] = True"
| "startswith [] (p # ps) = False"
| "startswith (c # cs) (p # ps) = (c = p \<and> startswith cs ps)"

text \<open>\<open>p in s\<close> for two strings: \<open>p\<close> occurs in \<open>s\<close> as a contiguous substring.\<close>

fun str_in :: "string \<Rightarrow> string \<Rightarrow> bool" where
  "str_in p [] = (p = [])"
| "str_in p (c # cs) = (startswith (c # cs) p \<or> str_in p cs)"

text \<open>
  \<open>s.replace(old, new)\<close>: the occurrences of \<open>old\<close> are found from left to right without
  overlap and each is replaced by \<open>new\<close>. For an empty \<open>old\<close> Python puts \<open>new\<close> before
  every character and at the end.
\<close>

function replace :: "string \<Rightarrow> string \<Rightarrow> string \<Rightarrow> string" where
  "replace s old new =
     (if old = [] then new @ concat (map (\<lambda>c. c # new) s)
      else if s = [] then []
      else if startswith s old then new @ replace (drop (length old) s) old new
      else hd s # replace (tl s) old new)"
  by pat_completeness auto
termination
  by (relation "measure (\<lambda>(s, old, new). length s)") (auto simp: neq_Nil_conv)

subsection \<open>JSON values and responses\<close>

text \<open>
  A JSON value as Python holds it: \<open>None\<close>, a \<open>bool\<close>, an \<open>int\<close>, a \<open>float\<close>, a
  \<open>str\<close>, a \<open>list\<close>, or a \<open>dict\<close> with its members in insertion order. A float is
  not-a-number, an infinity or a finite double; a finite double is given by its sign, its
  significand \<open>m\<close> and its binary exponent \<open>e\<close>, and has the value \<open>m\<close> times \<open>2\<close> to
  the \<open>e\<close>, negated when the sign is set.
\<close>

datatype double = Double bool nat int

datatype pyfloat = NaN | PosInf | NegInf | Finite double

datatype json =
    JNull
  | JBool bool
  | JInt int
  | JFloat pyfloat
  | JStr string
  | JArr "json list"
  | JObj "(string \<times> json) list"

record response =
  status :: nat
  body :: json

text \<open>\<open>jsonify(x)\<close> answers with status 200; \<open>return jsonify(x), n\<close> sets the status.\<close>

definition jsonify :: "json \<Rightarrow> response" where
  "jsonify j = \<lparr>status = 200, body = j\<rparr>"

definition jsonify_status :: "json \<Rightarrow> nat \<Rightarrow> response" where
  "jsonify_status j n = (jsonify j)\<lparr>status := n\<rparr>"

subsection \<open>The module \<open>json\<close>\<close>















text \<open>The items of an array and the members of an object are separated by a comma and a
  space, a key and its value by a colon and a space.\<close>

fun join :: "string list \<Rightarrow> string" where
  "join [] = []"
| "join [x] = x"
| "join (x # y # ys) = x @ '', '' @ join (y # ys)"













subsection \<open>Exceptions\<close>

datatype exn_class =
    IntegrityError
  | OperationalError
  | ProgrammingError
  | AttributeError
  | TypeError
  | KeyError
  | JSONDecodeError
  | ProviderError

text \<open>An exception has a class and the message that \<open>str(e)\<close> returns.\<close>

datatype exn = Exn exn_class string

fun str_of_exn :: "exn \<Rightarrow> string" where
  "str_of_exn (Exn c m) = m"

subsection \<open>The database\<close>

text \<open>
  The values a handler binds to a statement or reads from a result row. A result row maps
  field names to values (\<open>sqlite3.Row\<close>, \<open>RealDictRow\<close>); \<open>row['f']\<close> is \<open>map_of row ''f''\<close>.
\<close>

datatype sqlval = SqlNull | SqlInt int | SqlText string

type_synonym row = "(string \<times> sqlval) list"

text \<open>
  The two tables of \<open>init_db\<close>. In \<open>users\<close>, \<open>id\<close> is generated, \<open>username\<close> is
  \<open>UNIQUE NOT NULL\<close>, \<open>password_hash\<close> is \<open>NOT NULL\<close> and \<open>role\<close> defaults to \<open>'user'\<close>.
  In \<open>storage_new\<close>, \<open>user_id\<close> and \<open>key\<close> are \<open>NOT NULL\<close> and together the primary key,
  \<open>value\<close> may be \<open>NULL\<close>, and \<open>user_id\<close> references \<open>users(id)\<close>.
\<close>

record users_row =
  users_id :: int
  users_username :: string
  users_password_hash :: string
  users_role :: string

record storage_row =
  storage_user_id :: int
  storage_key :: string
  storage_value :: "string option"

record database =
  users :: "users_row list"
  storage_new :: "storage_row list"

text \<open>The statements of the handlers, as the source writes them (placeholders \<open>?\<close>). The
  upsert is written on one line: the source's line breaks and indentation are single
  spaces here.\<close>

definition sql_insert_user :: string where
  "sql_insert_user = ''INSERT INTO users (username, password_hash) VALUES (?, ?)''"

definition sql_select_user :: string where
  "sql_select_user = ''SELECT id, username, role FROM users WHERE username = ?''"

definition sql_select_user_all :: string where
  "sql_select_user_all = ''SELECT * FROM users WHERE username = ?''"

definition sql_select_value :: string where
  "sql_select_value = ''SELECT value FROM storage_new WHERE user_id = ? AND key = ?''"

definition sql_upsert :: string where
  "sql_upsert = ''INSERT INTO storage_new (user_id, key, value) VALUES (?, ?, ?) ON CONFLICT(user_id, key) DO UPDATE SET value = excluded.value''"

definition sql_delete :: string where
  "sql_delete = ''DELETE FROM storage_new WHERE user_id = ? AND key = ?''"

text \<open>The statements of \<open>init_db\<close>, which are passed to \<open>execute\<close> without parameters:
  the schema of the selected dialect (\<open>db.is_postgres\<close>), written on one line like the
  upsert.\<close>

definition sql_create_users :: "bool \<Rightarrow> string" where
  "sql_create_users pg =
     (if pg
      then ''CREATE TABLE IF NOT EXISTS users ( id SERIAL PRIMARY KEY, username TEXT UNIQUE NOT NULL, password_hash TEXT NOT NULL, role TEXT DEFAULT 'user', created_at TIMESTAMP DEFAULT CURRENT_TIMESTAMP )''
      else ''CREATE TABLE IF NOT EXISTS users ( id INTEGER PRIMARY KEY AUTOINCREMENT, username TEXT UNIQUE NOT NULL, password_hash TEXT NOT NULL, role TEXT DEFAULT 'user', created_at TIMESTAMP DEFAULT CURRENT_TIMESTAMP )'')"

definition sql_create_storage :: string where
  "sql_create_storage = ''CREATE TABLE IF NOT EXISTS storage_new ( user_id INTEGER NOT NULL, key TEXT NOT NULL, value TEXT, PRIMARY KEY (user_id, key), FOREIGN KEY (user_id) REFERENCES users(id) )''"

definition init_db_sql :: "bool \<Rightarrow> string list" where
  "init_db_sql pg = [sql_create_users pg, sql_create_storage]"

datatype statement =
    InsertUser
  | SelectUser
  | SelectUserAll
  | SelectValue
  | Upsert
  | DeleteEntry

text \<open>What each driver accepts: \<open>sqlite3\<close> reads \<open>?\<close> as a placeholder, \<open>psycopg2\<close>
  reads \<open>%s\<close>. The drivers are modelled on the statements of the handlers, which run on
  the two tables that \<open>init_db\<close> has created; any other text is a syntax error.\<close>

fun sqlite3_text :: "statement \<Rightarrow> string" where
  "sqlite3_text InsertUser = ''INSERT INTO users (username, password_hash) VALUES (?, ?)''"
| "sqlite3_text SelectUser = ''SELECT id, username, role FROM users WHERE username = ?''"
| "sqlite3_text SelectUserAll = ''SELECT * FROM users WHERE username = ?''"
| "sqlite3_text SelectValue = ''SELECT value FROM storage_new WHERE user_id = ? AND key = ?''"
| "sqlite3_text Upsert = ''INSERT INTO storage_new (user_id, key, value) VALUES (?, ?, ?) ON CONFLICT(user_id, key) DO UPDATE SET value = excluded.value''"
| "sqlite3_text DeleteEntry = ''DELETE FROM storage_new WHERE user_id = ? AND key = ?''"

fun psycopg2_text :: "statement \<Rightarrow> string" where
  "psycopg2_text InsertUser = ''INSERT INTO users (username, password_hash) VALUES (%s, %s)''"
| "psycopg2_text SelectUser = ''SELECT id, username, role FROM users WHERE username = %s''"
| "psycopg2_text SelectUserAll = ''SELECT * FROM users WHERE username = %s''"
| "psycopg2_text SelectValue = ''SELECT value FROM storage_new WHERE user_id = %s AND key = %s''"
| "psycopg2_text Upsert = ''INSERT INTO storage_new (user_id, key, value) VALUES (%s, %s, %s) ON CONFLICT(user_id, key) DO UPDATE SET value = excluded.value''"
| "psycopg2_text DeleteEntry = ''DELETE FROM storage_new WHERE user_id = %s AND key = %s''"

definition parse_statement :: "bool \<Rightarrow> string \<Rightarrow> statement option" where
  "parse_statement pg sql =
     find (\<lambda>st. (if pg then psycopg2_text st else sqlite3_text st) = sql)
       [InsertUser, SelectUser, SelectUserAll, SelectValue, Upsert, DeleteEntry]"

text \<open>The messages of the two engines for a violated constraint.\<close>

definition unique_violation :: "bool \<Rightarrow> string \<Rightarrow> exn" where
  "unique_violation pg col =
     (if pg then Exn IntegrityError (''duplicate key value violates unique constraint on '' @ col)
      else Exn IntegrityError (''UNIQUE constraint failed: '' @ col))"

definition not_null_violation :: "bool \<Rightarrow> string \<Rightarrow> exn" where
  "not_null_violation pg col =
     (if pg then Exn IntegrityError (''null value violates not-null constraint in column '' @ col)
      else Exn IntegrityError (''NOT NULL constraint failed: '' @ col))"

definition foreign_key_violation :: exn where
  "foreign_key_violation =
     Exn IntegrityError ''insert or update on table storage_new violates foreign key constraint''"

definition unsupported_binding :: exn where
  "unsupported_binding = Exn ProgrammingError ''unsupported parameters for this statement''"

text \<open>The generated \<open>id\<close>: one more than the largest id of the table (the table is never
  deleted from), so the first user gets 1. On Postgres a refused insert still takes a
  number from the sequence, which leaves gaps between the ids; the model has no gaps.\<close>

definition next_id :: "users_row list \<Rightarrow> int" where
  "next_id us = 1 + fold max (map users_id us) 0"

text \<open>The row that \<open>INSERT INTO users (username, password_hash)\<close> adds.\<close>

definition new_user :: "database \<Rightarrow> string \<Rightarrow> string \<Rightarrow> users_row" where
  "new_user d u h =
     \<lparr>users_id = next_id (users d), users_username = u, users_password_hash = h,
      users_role = ''user''\<rparr>"

definition user_brief :: "users_row \<Rightarrow> row" where
  "user_brief u =
     [(''id'', SqlInt (users_id u)), (''username'', SqlText (users_username u)),
      (''role'', SqlText (users_role u))]"

definition user_all :: "users_row \<Rightarrow> row" where
  "user_all u =
     [(''id'', SqlInt (users_id u)), (''username'', SqlText (users_username u)),
      (''password_hash'', SqlText (users_password_hash u)), (''role'', SqlText (users_role u))]"

definition value_row :: "storage_row \<Rightarrow> row" where
  "value_row r = [(''value'', (case storage_value r of None \<Rightarrow> SqlNull | Some t \<Rightarrow> SqlText t))]"

definition is_entry :: "int \<Rightarrow> string \<Rightarrow> storage_row \<Rightarrow> bool" where
  "is_entry uid k r = (storage_user_id r = uid \<and> storage_key r = k)"

text \<open>\<open>INSERT ... ON CONFLICT(user_id, key) DO UPDATE SET value = excluded.value\<close> on the
  rows of \<open>storage_new\<close>: a row with this key gets the new value, otherwise a row is
  added.\<close>

definition upsert_rows ::
    "int \<Rightarrow> string \<Rightarrow> string option \<Rightarrow> storage_row list \<Rightarrow> storage_row list" where
  "upsert_rows uid k t rows =
     (if \<exists>r \<in> set rows. is_entry uid k r
      then map (\<lambda>r. if is_entry uid k r then r\<lparr>storage_value := t\<rparr> else r) rows
      else rows @ [\<lparr>storage_user_id = uid, storage_key = k, storage_value = t\<rparr>])"

text \<open>
  One statement on the tables: the result rows or the engine's error, and the tables
  after it. A failed statement changes nothing. A comparison with \<open>NULL\<close> selects no row.
  Parameter lists of a shape the handlers never bind (a number for a text column, a wrong
  count) are rejected as \<open>unsupported_binding\<close>.
\<close>

definition run_statement ::
    "bool \<Rightarrow> statement \<Rightarrow> sqlval list \<Rightarrow> database \<Rightarrow> (exn + row list) \<times> database" where
  "run_statement pg st params d =
     (case (st, params) of
        (InsertUser, [SqlText u, SqlText h]) \<Rightarrow>
          (if u \<in> set (map users_username (users d))
           then (Inl (unique_violation pg ''users.username''), d)
           else (Inr [], d\<lparr>users := users d @ [new_user d u h]\<rparr>))
      | (InsertUser, [SqlNull, h]) \<Rightarrow> (Inl (not_null_violation pg ''users.username''), d)
      | (InsertUser, [SqlText u, SqlNull]) \<Rightarrow>
          (Inl (not_null_violation pg ''users.password_hash''), d)
      | (SelectUser, [SqlText u]) \<Rightarrow>
          (Inr (map user_brief (filter (\<lambda>r. users_username r = u) (users d))), d)
      | (SelectUser, [SqlNull]) \<Rightarrow> (Inr [], d)
      | (SelectUserAll, [SqlText u]) \<Rightarrow>
          (Inr (map user_all (filter (\<lambda>r. users_username r = u) (users d))), d)
      | (SelectUserAll, [SqlNull]) \<Rightarrow> (Inr [], d)
      | (SelectValue, [SqlInt uid, SqlText k]) \<Rightarrow>
          (Inr (map value_row (filter (is_entry uid k) (storage_new d))), d)
      | (SelectValue, [SqlInt uid, SqlNull]) \<Rightarrow> (Inr [], d)
      | (SelectValue, [SqlNull, k]) \<Rightarrow> (Inr [], d)
      | (Upsert, [SqlInt uid, SqlText k, v]) \<Rightarrow>
          (case v of
             SqlInt i \<Rightarrow> (Inl unsupported_binding, d)
           | _ \<Rightarrow>
             (let t = (case v of SqlText t \<Rightarrow> Some t | _ \<Rightarrow> None) in
              if pg \<and> uid \<notin> set (map users_id (users d))
              then (Inl foreign_key_violation, d)
              else (Inr [], d\<lparr>storage_new := upsert_rows uid k t (storage_new d)\<rparr>)))
      | (Upsert, [SqlInt uid, SqlNull, v]) \<Rightarrow>
          (Inl (not_null_violation pg ''storage_new.key''), d)
      | (Upsert, [SqlNull, k, v]) \<Rightarrow>
          (Inl (not_null_violation pg ''storage_new.user_id''), d)
      | (DeleteEntry, [SqlInt uid, SqlText k]) \<Rightarrow>
          (Inr [], d\<lparr>storage_new := filter (\<lambda>r. \<not> is_entry uid k r) (storage_new d)\<rparr>)
      | (DeleteEntry, [SqlInt uid, SqlNull]) \<Rightarrow> (Inr [], d)
      | (DeleteEntry, [SqlNull, k]) \<Rightarrow> (Inr [], d)
      | _ \<Rightarrow> (Inl unsupported_binding, d))"

subsection \<open>Connections and the class \<open>DBConnection\<close>\<close>

text \<open>
  A driver connection: the tables as stored (\<open>durable\<close>), the tables as the open
  transaction sees them (\<open>working\<close>), the calls completed on the connection so far, and
  the exception that \<open>commit()\<close> (\<open>rollback()\<close>) raises on this connection when the
  engine refuses the call: \<open>sqlite3\<close> raises \<open>OperationalError: database is locked\<close>
  while another connection holds a lock on the file, \<open>psycopg2\<close> raises
  \<open>OperationalError\<close> when the server has closed the connection.
\<close>

datatype conn_event = Commit | Rollback | Close

record connection =
  durable :: database
  working :: database
  trace :: "conn_event list"
  commit_error :: "exn option"
  rollback_error :: "exn option"

definition database_locked :: exn where
  "database_locked = Exn OperationalError ''database is locked''"

definition connect :: "database \<Rightarrow> connection" where
  "connect d =
     \<lparr>durable = d, working = d, trace = [], commit_error = None, rollback_error = None\<rparr>"

definition commit :: "connection \<Rightarrow> exn + connection" where
  "commit c =
     (case commit_error c of
        Some e \<Rightarrow> Inl e
      | None \<Rightarrow> Inr (c\<lparr>durable := working c, trace := trace c @ [Commit]\<rparr>))"

definition rollback :: "connection \<Rightarrow> exn + connection" where
  "rollback c =
     (case rollback_error c of
        Some e \<Rightarrow> Inl e
      | None \<Rightarrow> Inr (c\<lparr>working := durable c, trace := trace c @ [Rollback]\<rparr>))"

definition close :: "connection \<Rightarrow> connection" where
  "close c = c\<lparr>trace := trace c @ [Close]\<rparr>"

text \<open>\<open>cursor.execute(sql, params)\<close> of the driver (\<open>psycopg2\<close> when \<open>pg\<close>, else
  \<open>sqlite3\<close>), inside the open transaction.\<close>

definition cursor_execute ::
    "bool \<Rightarrow> string \<Rightarrow> sqlval list \<Rightarrow> connection \<Rightarrow> (exn + row list) \<times> connection" where
  "cursor_execute pg sql params c =
     (if Close \<in> set (trace c)
      then (Inl (Exn ProgrammingError ''Cannot operate on a closed database.''), c)
      else case parse_statement pg sql of
             None \<Rightarrow> (Inl (Exn OperationalError (''syntax error: '' @ sql)), c)
           | Some st \<Rightarrow>
               (case run_statement pg st params (working c) of
                  (r, d) \<Rightarrow> (r, c\<lparr>working := d\<rparr>)))"

text \<open>\<open>cursor.fetchone()\<close>: the first row, or \<open>None\<close>.\<close>

definition fetchone :: "row list \<Rightarrow> row option" where
  "fetchone rows = (case rows of [] \<Rightarrow> None | r # _ \<Rightarrow> Some r)"

record DBConnection =
  db_url :: "string option"
  conn :: "connection option"
  is_postgres :: bool

text \<open>\<open>__init__\<close>: \<open>is_postgres = bool(db_url)\<close>, so an empty URL selects SQLite.\<close>

definition DBConnection_init :: "string option \<Rightarrow> DBConnection" where
  "DBConnection_init url =
     \<lparr>db_url = url, conn = None,
      is_postgres = (case url of None \<Rightarrow> False | Some u \<Rightarrow> u \<noteq> [])\<rparr>"

text \<open>\<open>__enter__\<close>: both branches open a connection on the stored tables.\<close>

definition DBConnection_enter :: "DBConnection \<Rightarrow> database \<Rightarrow> DBConnection" where
  "DBConnection_enter self d =
     (if is_postgres self then self\<lparr>conn := Some (connect d)\<rparr>
      else self\<lparr>conn := Some (connect d)\<rparr>)"

text \<open>\<open>__exit__(exc_type, ...)\<close>: \<open>exc\<close> is the exception that left the block, if any.
  The three calls are in sequence, with no \<open>try\<close> around them: when \<open>rollback()\<close> or
  \<open>commit()\<close> raises, \<open>self.conn.close()\<close> is not reached and the exception leaves
  \<open>__exit__\<close>; it is the first component of the result. Otherwise the method returns
  \<open>None\<close>, so an exception that left the block goes on to the caller.\<close>

definition DBConnection_exit :: "DBConnection \<Rightarrow> exn option \<Rightarrow> exn option \<times> DBConnection" where
  "DBConnection_exit self exc =
     (case conn self of
        None \<Rightarrow> (None, self)
      | Some c \<Rightarrow>
          (case (case exc of Some e \<Rightarrow> rollback c | None \<Rightarrow> commit c) of
             Inl e' \<Rightarrow> (Some e', self)
           | Inr c' \<Rightarrow> (None, self\<lparr>conn := Some (close c')\<rparr>)))"

text \<open>The text that \<open>execute\<close> passes to the driver:
  \<open>if self.is_postgres: sql = sql.replace('?', '%s')\<close>.\<close>

definition dialect_sql :: "bool \<Rightarrow> string \<Rightarrow> string" where
  "dialect_sql pg sql = (if pg then replace sql ''?'' ''%s'' else sql)"

text \<open>\<open>execute(sql, params=None)\<close>. Without a connection \<open>self.conn.cursor()\<close> raises
  \<open>AttributeError\<close>. The \<open>except\<close> clause prints and re-raises.\<close>

definition DBConnection_execute ::
    "DBConnection \<Rightarrow> string \<Rightarrow> sqlval list option \<Rightarrow> (exn + row list) \<times> DBConnection" where
  "DBConnection_execute self sql params =
     (let params = (case params of None \<Rightarrow> [] | Some ps \<Rightarrow> ps);
          sql = dialect_sql (is_postgres self) sql
      in case conn self of
           None \<Rightarrow>
             (Inl (Exn AttributeError ''NoneType object has no attribute cursor''), self)
         | Some c \<Rightarrow>
             (case cursor_execute (is_postgres self) sql params c of
                (Inl e, c') \<Rightarrow> (Inl e, self\<lparr>conn := Some c'\<rparr>)
              | (Inr rows, c') \<Rightarrow> (Inr rows, self\<lparr>conn := Some c'\<rparr>)))"

text \<open>The tables stored after the connection object was used; \<open>d\<close> when it never had a
  connection.\<close>

definition stored :: "DBConnection \<Rightarrow> database \<Rightarrow> database" where
  "stored self d = (case conn self of None \<Rightarrow> d | Some c \<Rightarrow> durable c)"

text \<open>
  \<open>with obj as db: body\<close>. The body returns its value, or the exception
  that left it, and the connection object as it left it. An exception raised by
  \<open>__exit__\<close> leaves the statement in place of the body's value or exception.
\<close>

definition with_db ::
    "DBConnection \<Rightarrow> database \<Rightarrow> (DBConnection \<Rightarrow> (exn + 'a) \<times> DBConnection)
       \<Rightarrow> (exn + 'a) \<times> DBConnection" where
  "with_db obj d blk =
     (case blk (DBConnection_enter obj d) of
        (Inl e, self) \<Rightarrow>
          (case DBConnection_exit self (Some e) of
             (Some e', self') \<Rightarrow> (Inl e', self')
           | (None, self') \<Rightarrow> (Inl e, self'))
      | (Inr x, self) \<Rightarrow>
          (case DBConnection_exit self None of
             (Some e', self') \<Rightarrow> (Inl e', self')
           | (None, self') \<Rightarrow> (Inr x, self')))"

subsection \<open>Environment, session and requests\<close>

text \<open>
  The environment variables read by the handlers and the library functions they call.
  \<open>json_loads\<close> returns \<open>None\<close> where \<open>json.loads\<close> raises \<open>JSONDecodeError\<close>;
  \<open>generate_content\<close> takes the system instruction and the message.
\<close>

record env =
  DATABASE_URL :: "string option"
  GEMINI_API_KEY :: "string option"
  json_dumps :: "json \<Rightarrow> string"
  json_loads :: "string \<Rightarrow> json option"
  generate_password_hash :: "string \<Rightarrow> string"
  check_password_hash :: "string \<Rightarrow> string \<Rightarrow> bool"
  generate_content :: "string \<Rightarrow> string \<Rightarrow> exn + string"

definition get_db :: "env \<Rightarrow> DBConnection" where
  "get_db E = DBConnection_init (DATABASE_URL E)"


text \<open>Flask's \<open>session\<close> is a dictionary; the handlers use the keys \<open>user_id\<close> and
  \<open>username\<close>. The application state is the stored database and the caller's session.\<close>

type_synonym session = "string \<rightharpoonup> sqlval"

record app =
  db :: database
  session :: session

text \<open>The request bodies, field by field: \<open>None\<close> is a field that is missing or
  \<open>null\<close> (\<open>data.get\<close> returns \<open>None\<close> for both).\<close>

record credentials =
  cred_username :: "string option"
  cred_password :: "string option"

record storage_request =
  req_key :: "string option"
  req_value :: "json option"

record chat_request =
  req_system_context :: "string option"
  req_message :: "string option"

definition sql_of_str :: "string option \<Rightarrow> sqlval" where
  "sql_of_str x = (case x of None \<Rightarrow> SqlNull | Some t \<Rightarrow> SqlText t)"

definition json_of_sqlval :: "sqlval \<Rightarrow> json" where
  "json_of_sqlval v = (case v of SqlNull \<Rightarrow> JNull | SqlInt i \<Rightarrow> JInt i | SqlText t \<Rightarrow> JStr t)"

definition json_of_row :: "row \<Rightarrow> json" where
  "json_of_row r = JObj (map (\<lambda>(k, v). (k, json_of_sqlval v)) r)"

definition error_body :: "string \<Rightarrow> json" where
  "error_body m = JObj [(''error'', JStr m)]"

definition success_body :: json where
  "success_body = JObj [(''status'', JStr ''success'')]"

subsection \<open>The guard\<close>

text \<open>\<open>login_required(f)\<close>: without \<open>user_id\<close> in the session the answer is 401 and
  \<open>f\<close> is not called.\<close>

definition login_required ::
    "(app \<Rightarrow> 'a \<Rightarrow> (exn + response) \<times> app) \<Rightarrow> app \<Rightarrow> 'a \<Rightarrow> (exn + response) \<times> app" where
  "login_required f s a =
     (if session s ''user_id'' = None
      then (Inr (jsonify_status (error_body ''Authentication required'') 401), s)
      else f s a)"

subsection \<open>Authentication endpoints\<close>

text \<open>The block under \<open>with get_db() as db\<close> in \<open>register\<close>. It returns the response and
  the session it has set. The selected row has the fields \<open>id\<close> and \<open>username\<close>, so the
  \<open>KeyError\<close> of a missing field is never raised.\<close>

definition register_block ::
    "env \<Rightarrow> session \<Rightarrow> string \<Rightarrow> string \<Rightarrow> DBConnection
       \<Rightarrow> (exn + response \<times> session) \<times> DBConnection" where
  "register_block E sess username password self =
     (case DBConnection_execute self sql_insert_user
             (Some [SqlText username, SqlText (generate_password_hash E password)]) of
        (Inl e, self) \<Rightarrow> (Inl e, self)
      | (Inr _, self) \<Rightarrow>
          (case DBConnection_execute self sql_select_user (Some [SqlText username]) of
             (Inl e, self) \<Rightarrow> (Inl e, self)
           | (Inr rows, self) \<Rightarrow>
               (case fetchone rows of
                  None \<Rightarrow> (Inl (Exn TypeError ''NoneType object is not iterable''), self)
                | Some user \<Rightarrow>
                    (case (map_of user ''id'', map_of user ''username'') of
                       (Some i, Some n) \<Rightarrow>
                         (Inr (jsonify (JObj [(''status'', JStr ''success''),
                                              (''user'', json_of_row user)]),
                               sess(''user_id'' \<mapsto> i, ''username'' \<mapsto> n)),
                          self)
                     | _ \<Rightarrow> (Inl (Exn KeyError ''id''), self)))))"

text \<open>\<open>register\<close>: \<open>not username or not password\<close> holds for a missing and for an empty
  field. The \<open>except\<close> clause tells a duplicate from any other failure by the message.\<close>

definition register :: "env \<Rightarrow> app \<Rightarrow> credentials \<Rightarrow> (exn + response) \<times> app" where
  "register E s data =
     (case (cred_username data, cred_password data) of
        (Some username, Some password) \<Rightarrow>
          (if username = [] \<or> password = []
           then (Inr (jsonify_status (error_body ''Username and password required'') 400), s)
           else
             (case with_db (get_db E) (db s) (register_block E (session s) username password) of
                (Inr (resp, sess), self) \<Rightarrow>
                  (Inr resp, \<lparr>db = stored self (db s), session = sess\<rparr>)
              | (Inl e, self) \<Rightarrow>
                  (if str_in ''UNIQUE constraint failed'' (str_of_exn e)
                      \<or> str_in ''duplicate key value'' (str_of_exn e)
                   then (Inr (jsonify_status (error_body ''Username already exists'') 400),
                         s\<lparr>db := stored self (db s)\<rparr>)
                   else (Inr (jsonify_status (error_body ''Registration failed'') 500),
                         s\<lparr>db := stored self (db s)\<rparr>))))
      | _ \<Rightarrow> (Inr (jsonify_status (error_body ''Username and password required'') 400), s))"

text \<open>\<open>check_password_hash(pwhash, password)\<close> encodes the password before hashing it:
  for \<open>None\<close> (no password in the request) the call raises, it does not return
  \<open>False\<close>.\<close>

definition check_password :: "env \<Rightarrow> sqlval \<Rightarrow> string option \<Rightarrow> exn + bool" where
  "check_password E pwhash password =
     (case password of
        None \<Rightarrow> Inl (Exn AttributeError ''NoneType object has no attribute encode'')
      | Some p \<Rightarrow>
          (case pwhash of
             SqlText h \<Rightarrow> Inr (check_password_hash E h p)
           | _ \<Rightarrow> Inl (Exn AttributeError ''object has no attribute split'')))"

text \<open>The block under \<open>with\<close> in \<open>login\<close>: \<open>Some\<close> is the \<open>return\<close> inside the block,
  \<open>None\<close> falls through to the statement after it. \<open>if user and ...\<close> is false for no
  row and for a row without fields.\<close>

definition login_block ::
    "env \<Rightarrow> session \<Rightarrow> string option \<Rightarrow> string option \<Rightarrow> DBConnection
       \<Rightarrow> (exn + (response \<times> session) option) \<times> DBConnection" where
  "login_block E sess username password self =
     (case DBConnection_execute self sql_select_user_all (Some [sql_of_str username]) of
        (Inl e, self) \<Rightarrow> (Inl e, self)
      | (Inr rows, self) \<Rightarrow>
          (case fetchone rows of
             None \<Rightarrow> (Inr None, self)
           | Some user \<Rightarrow>
               (case (if user = [] then None else map_of user ''password_hash'') of
                  None \<Rightarrow>
                    (if user = [] then (Inr None, self)
                     else (Inl (Exn KeyError ''password_hash''), self))
                | Some h \<Rightarrow>
                    (case check_password E h password of
                       Inl e \<Rightarrow> (Inl e, self)
                     | Inr False \<Rightarrow> (Inr None, self)
                     | Inr True \<Rightarrow>
                         (case (map_of user ''id'', map_of user ''username'',
                                map_of user ''role'') of
                            (Some i, Some n, Some r) \<Rightarrow>
                              (Inr (Some
                                 (jsonify (JObj [(''status'', JStr ''success''),
                                    (''user'', JObj [(''id'', json_of_sqlval i),
                                                     (''username'', json_of_sqlval n),
                                                     (''role'', json_of_sqlval r)])]),
                                  sess(''user_id'' \<mapsto> i, ''username'' \<mapsto> n))),
                               self)
                          | _ \<Rightarrow> (Inl (Exn KeyError ''id''), self))))))"

definition login :: "env \<Rightarrow> app \<Rightarrow> credentials \<Rightarrow> (exn + response) \<times> app" where
  "login E s data =
     (case with_db (get_db E) (db s)
             (login_block E (session s) (cred_username data) (cred_password data)) of
        (Inr (Some (resp, sess)), self) \<Rightarrow>
          (Inr resp, \<lparr>db = stored self (db s), session = sess\<rparr>)
      | (Inr None, self) \<Rightarrow>
          (Inr (jsonify_status (error_body ''Invalid username or password'') 401),
           s\<lparr>db := stored self (db s)\<rparr>)
      | (Inl e, self) \<Rightarrow> (Inl e, s\<lparr>db := stored self (db s)\<rparr>))"

definition check_session :: "app \<Rightarrow> (exn + response) \<times> app" where
  "check_session s =
     (case session s ''user_id'' of
        None \<Rightarrow> (Inr (jsonify_status (JObj [(''authenticated'', JBool False)]) 401), s)
      | Some i \<Rightarrow>
          (case session s ''username'' of
             None \<Rightarrow> (Inl (Exn KeyError ''username''), s)
           | Some n \<Rightarrow>
               (Inr (jsonify (JObj [(''authenticated'', JBool True),
                                    (''user'', JObj [(''id'', json_of_sqlval i),
                                                     (''username'', json_of_sqlval n)])])),
                s)))"

definition logout :: "app \<Rightarrow> (exn + response) \<times> app" where
  "logout s = (Inr (jsonify success_body), s\<lparr>session := Map.empty\<rparr>)"

subsection \<open>Storage endpoints\<close>

text \<open>\<open>json.loads(row['value'])\<close>: a \<open>NULL\<close> value is \<open>None\<close> in Python and
  \<open>json.loads(None)\<close> raises \<open>TypeError\<close>.\<close>

definition loads_value :: "env \<Rightarrow> sqlval \<Rightarrow> exn + json" where
  "loads_value E v =
     (case v of
        SqlText t \<Rightarrow>
          (case json_loads E t of
             None \<Rightarrow> Inl (Exn JSONDecodeError ''Expecting value'')
           | Some j \<Rightarrow> Inr j)
      | _ \<Rightarrow> Inl (Exn TypeError ''the JSON object must be str, bytes or bytearray''))"

text \<open>What \<open>get_data\<close> returns for the rows of its query: \<open>if row:\<close> is false for no
  row and for a row without fields.\<close>

definition get_data_result :: "env \<Rightarrow> row list \<Rightarrow> exn + response" where
  "get_data_result E rows =
     (case fetchone rows of
        None \<Rightarrow> Inr (jsonify JNull)
      | Some row \<Rightarrow>
          (if row = [] then Inr (jsonify JNull)
           else case map_of row ''value'' of
                  None \<Rightarrow> Inl (Exn KeyError ''value'')
                | Some v \<Rightarrow>
                    (case loads_value E v of
                       Inl e \<Rightarrow> Inl e
                     | Inr j \<Rightarrow> Inr (jsonify j))))"

definition get_data_block ::
    "env \<Rightarrow> sqlval \<Rightarrow> string \<Rightarrow> DBConnection \<Rightarrow> (exn + response) \<times> DBConnection" where
  "get_data_block E user_id key self =
     (case DBConnection_execute self sql_select_value (Some [user_id, SqlText key]) of
        (Inl e, self) \<Rightarrow> (Inl e, self)
      | (Inr rows, self) \<Rightarrow> (get_data_result E rows, self))"

text \<open>The functions under the decorator carry the suffix \<open>_impl\<close>; the endpoint is the
  decorated function. \<open>session['user_id']\<close> raises \<open>KeyError\<close> for a missing key.\<close>

definition get_data_impl :: "env \<Rightarrow> app \<Rightarrow> string \<Rightarrow> (exn + response) \<times> app" where
  "get_data_impl E s key =
     (case session s ''user_id'' of
        None \<Rightarrow> (Inl (Exn KeyError ''user_id''), s)
      | Some user_id \<Rightarrow>
          (case with_db (get_db E) (db s) (get_data_block E user_id key) of
             (r, self) \<Rightarrow> (r, s\<lparr>db := stored self (db s)\<rparr>)))"

definition get_data :: "env \<Rightarrow> app \<Rightarrow> string \<Rightarrow> (exn + response) \<times> app" where
  "get_data E = login_required (get_data_impl E)"

text \<open>\<open>set_data\<close>: \<open>data.get('value')\<close> of a missing field is \<open>None\<close>, which
  \<open>json.dumps\<close> writes as \<open>null\<close>. The two branches on the dialect send the same text.\<close>

definition set_data_block ::
    "sqlval \<Rightarrow> string option \<Rightarrow> string \<Rightarrow> DBConnection \<Rightarrow> (exn + unit) \<times> DBConnection" where
  "set_data_block user_id key val self =
     (case (if is_postgres self
            then DBConnection_execute self sql_upsert
                   (Some [user_id, sql_of_str key, SqlText val])
            else DBConnection_execute self sql_upsert
                   (Some [user_id, sql_of_str key, SqlText val])) of
        (Inl e, self) \<Rightarrow> (Inl e, self)
      | (Inr _, self) \<Rightarrow> (Inr (), self))"

definition set_data_impl :: "env \<Rightarrow> app \<Rightarrow> storage_request \<Rightarrow> (exn + response) \<times> app" where
  "set_data_impl E s data =
     (let key = req_key data;
          val = json_dumps E (case req_value data of None \<Rightarrow> JNull | Some v \<Rightarrow> v)
      in case session s ''user_id'' of
           None \<Rightarrow> (Inl (Exn KeyError ''user_id''), s)
         | Some user_id \<Rightarrow>
             (case with_db (get_db E) (db s) (set_data_block user_id key val) of
                (Inl e, self) \<Rightarrow> (Inl e, s\<lparr>db := stored self (db s)\<rparr>)
              | (Inr _, self) \<Rightarrow> (Inr (jsonify success_body), s\<lparr>db := stored self (db s)\<rparr>)))"

definition set_data :: "env \<Rightarrow> app \<Rightarrow> storage_request \<Rightarrow> (exn + response) \<times> app" where
  "set_data E = login_required (set_data_impl E)"

definition remove_data_block ::
    "sqlval \<Rightarrow> string \<Rightarrow> DBConnection \<Rightarrow> (exn + unit) \<times> DBConnection" where
  "remove_data_block user_id key self =
     (case DBConnection_execute self sql_delete (Some [user_id, SqlText key]) of
        (Inl e, self) \<Rightarrow> (Inl e, self)
      | (Inr _, self) \<Rightarrow> (Inr (), self))"

definition remove_data_impl :: "env \<Rightarrow> app \<Rightarrow> string \<Rightarrow> (exn + response) \<times> app" where
  "remove_data_impl E s key =
     (case session s ''user_id'' of
        None \<Rightarrow> (Inl (Exn KeyError ''user_id''), s)
      | Some user_id \<Rightarrow>
          (case with_db (get_db E) (db s) (remove_data_block user_id key) of
             (Inl e, self) \<Rightarrow> (Inl e, s\<lparr>db := stored self (db s)\<rparr>)
           | (Inr _, self) \<Rightarrow> (Inr (jsonify success_body), s\<lparr>db := stored self (db s)\<rparr>)))"

definition remove_data :: "env \<Rightarrow> app \<Rightarrow> string \<Rightarrow> (exn + response) \<times> app" where
  "remove_data E = login_required (remove_data_impl E)"

subsection \<open>Chat endpoint\<close>

text \<open>\<open>chat\<close>: \<open>not GEMINI_API_KEY\<close> holds for an unset and for an empty variable; a
  missing field of the request defaults to the empty string.\<close>

definition chat_impl :: "env \<Rightarrow> app \<Rightarrow> chat_request \<Rightarrow> (exn + response) \<times> app" where
  "chat_impl E s data =
     (if GEMINI_API_KEY E = None \<or> GEMINI_API_KEY E = Some []
      then (Inr (jsonify_status (error_body ''Gemini API key not configured'') 500), s)
      else
        (let system_context = (case req_system_context data of None \<Rightarrow> [] | Some t \<Rightarrow> t);
             user_message = (case req_message data of None \<Rightarrow> [] | Some t \<Rightarrow> t)
         in case generate_content E system_context user_message of
              Inl e \<Rightarrow> (Inr (jsonify_status (error_body (str_of_exn e)) 500), s)
            | Inr text \<Rightarrow> (Inr (jsonify (JObj [(''response'', JStr text)])), s)))"

definition chat :: "env \<Rightarrow> app \<Rightarrow> chat_request \<Rightarrow> (exn + response) \<times> app" where
  "chat E = login_required (chat_impl E)"

subsection \<open>The route table\<close>

datatype request =
    PostRegister credentials
  | PostLogin credentials
  | GetSession
  | PostLogout
  | GetStorage string
  | PostStorage storage_request
  | DeleteStorage string
  | PostChat chat_request

fun handle :: "env \<Rightarrow> app \<Rightarrow> request \<Rightarrow> (exn + response) \<times> app" where
  "handle E s (PostRegister data) = register E s data"
| "handle E s (PostLogin data) = login E s data"
| "handle E s GetSession = check_session s"
| "handle E s PostLogout = logout s"
| "handle E s (GetStorage key) = get_data E s key"
| "handle E s (PostStorage data) = set_data E s data"
| "handle E s (DeleteStorage key) = remove_data E s key"
| "handle E s (PostChat data) = chat E s data"

subsection \<open>Notions used by the properties\<close>

text \<open>The primary key of \<open>storage_new\<close>: no two rows with the same \<open>(user_id, key)\<close>.\<close>

definition pk_unique :: "storage_row list \<Rightarrow> bool" where
  "pk_unique rows = distinct (map (\<lambda>r. (storage_user_id r, storage_key r)) rows)"

text \<open>The storage rows of one user, in table order.\<close>

definition entries_of :: "int \<Rightarrow> database \<Rightarrow> storage_row list" where
  "entries_of uid d = filter (\<lambda>r. storage_user_id r = uid) (storage_new d)"

fun storage_op :: "request \<Rightarrow> bool" where
  "storage_op (GetStorage key) = True"
| "storage_op (PostStorage data) = True"
| "storage_op (DeleteStorage key) = True"
| "storage_op _ = False"




text \<open>A text that may follow a value inside a JSON text: nothing, a comma or a closing
  bracket or brace.\<close>

definition sep :: "string \<Rightarrow> bool" where
  "sep r = (case r of [] \<Rightarrow> True | c # _ \<Rightarrow> c = CHR '','' \<or> c = CHR '']'' \<or> c = CHR ''}'')"



subsection \<open>A concrete environment and state\<close>

text \<open>An environment on the Postgres dialect with a small codec and a transparent
  password hash; a state in which alice (id 1) is registered and logged in, the same
  database without a session, and the state after \<open>init_db\<close> on a new database.\<close>

definition example_dumps :: "json \<Rightarrow> string" where
  "example_dumps j =
     (case j of
        JNull \<Rightarrow> ''null''
      | JBool b \<Rightarrow> (if b then ''true'' else ''false'')
      | JInt i \<Rightarrow> (if i = 500 then ''500'' else ''0'')
      | _ \<Rightarrow> ''[]'')"

definition example_loads :: "string \<Rightarrow> json option" where
  "example_loads t =
     (if t = ''null'' then Some JNull
      else if t = ''true'' then Some (JBool True)
      else if t = ''false'' then Some (JBool False)
      else if t = ''500'' then Some (JInt 500)
      else if t = ''0'' then Some (JInt 0)
      else if t = ''[]'' then Some (JArr [])
      else None)"

definition example_env :: env where
  "example_env =
     \<lparr>DATABASE_URL = Some ''postgresql://wealthflow'',
      GEMINI_API_KEY = None,
      json_dumps = example_dumps,
      json_loads = example_loads,
      generate_password_hash = (\<lambda>p. ''plain:'' @ p),
      check_password_hash = (\<lambda>h p. h = ''plain:'' @ p),
      generate_content = (\<lambda>instruction message. Inr message)\<rparr>"




definition alice_row :: users_row where
  "alice_row =
     \<lparr>users_id = 1, users_username = ''alice'', users_password_hash = ''plain:pw123'',
      users_role = ''user''\<rparr>"

definition example_db :: database where
  "example_db = \<lparr>users = [alice_row], storage_new = []\<rparr>"

definition example_app :: app where
  "example_app =
     \<lparr>db = example_db,
      session = [''user_id'' \<mapsto> SqlInt 1, ''username'' \<mapsto> SqlText ''alice'']\<rparr>"

definition empty_app :: app where
  "empty_app = \<lparr>db = \<lparr>users = [], storage_new = []\<rparr>, session = Map.empty\<rparr>"

definition anonymous_app :: app where
  "anonymous_app = \<lparr>db = example_db, session = Map.empty\<rparr>"

text \<open>A connection on which the engine refuses to end the transaction with the
  exception \<open>e\<close>, and two scopes on such a connection: the block of \<open>remove_data\<close> on
  SQLite while another connection holds a lock on the file, and the block of
  \<open>set_data\<close> on Postgres, for a user id that is not in \<open>users\<close>, after the server has
  closed the connection.\<close>

definition connection_lost :: exn where
  "connection_lost = Exn OperationalError ''server closed the connection unexpectedly''"

definition refusing :: "exn \<Rightarrow> DBConnection \<Rightarrow> DBConnection" where
  "refusing e self =
     self\<lparr>conn := map_option (\<lambda>c. c\<lparr>commit_error := Some e, rollback_error := Some e\<rparr>)
                (conn self)\<rparr>"

definition locked_remove :: "DBConnection \<Rightarrow> (exn + unit) \<times> DBConnection" where
  "locked_remove self = remove_data_block (SqlInt 1) ''budget'' (refusing database_locked self)"

definition lost_set :: "DBConnection \<Rightarrow> (exn + unit) \<times> DBConnection" where
  "lost_set self =
     set_data_block (SqlInt 7) (Some ''budget'') ''500'' (refusing connection_lost self)"

section \<open>Properties\<close>

subsection \<open>Strings and statement texts\<close>

declare replace.simps [simp del]

lemma replace_Nil: "old \<noteq> [] \<Longrightarrow> replace [] old new = []"
  by (simp add: replace.simps)

lemma replace_qmark_Cons:
  "replace (c # s) ''?'' ''%s'' =
     (if c = CHR ''?'' then ''%s'' @ replace s ''?'' ''%s'' else c # replace s ''?'' ''%s'')"
  by (subst replace.simps) simp

lemma replace_qmark:
  "replace s ''?'' ''%s'' = concat (map (\<lambda>c. if c = CHR ''?'' then ''%s'' else [c]) s)"
  by (induction s) (simp_all add: replace_Nil replace_qmark_Cons)

lemma replace_sqlite3_text: "replace (sqlite3_text st) ''?'' ''%s'' = psycopg2_text st"
  by (cases st) (simp_all add: replace_qmark)

lemma parse_psycopg2_text: "parse_statement True (psycopg2_text st) = Some st"
  by (cases st) (simp_all add: parse_statement_def)

lemma parse_sqlite3_text: "parse_statement False (sqlite3_text st) = Some st"
  by (cases st) (simp_all add: parse_statement_def)

lemma sql_texts:
  "sql_insert_user = sqlite3_text InsertUser"
  "sql_select_user = sqlite3_text SelectUser"
  "sql_select_user_all = sqlite3_text SelectUserAll"
  "sql_select_value = sqlite3_text SelectValue"
  "sql_upsert = sqlite3_text Upsert"
  "sql_delete = sqlite3_text DeleteEntry"
  by (simp_all add: sql_insert_user_def sql_select_user_def sql_select_user_all_def
      sql_select_value_def sql_upsert_def sql_delete_def)

text \<open>In both dialects the text of a handler reaches the driver in the driver's own
  placeholder style and is run as the statement it denotes.\<close>

lemma execute_statement:
  assumes "conn self = Some c" and "Close \<notin> set (trace c)"
  shows "DBConnection_execute self (sqlite3_text st) (Some ps) =
           (fst (run_statement (is_postgres self) st ps (working c)),
            self\<lparr>conn := Some (c\<lparr>working :=
                     snd (run_statement (is_postgres self) st ps (working c))\<rparr>)\<rparr>)"
  using assms
  by (cases "is_postgres self")
     (simp_all add: DBConnection_execute_def dialect_sql_def cursor_execute_def
        replace_sqlite3_text parse_psycopg2_text parse_sqlite3_text
        split: prod.splits sum.splits)

lemma execute_obj:
  assumes "Close \<notin> set (trace c)"
  shows "DBConnection_execute (obj\<lparr>conn := Some c\<rparr>) (sqlite3_text st) (Some ps) =
           (fst (run_statement (is_postgres obj) st ps (working c)),
            obj\<lparr>conn := Some (c\<lparr>working :=
                    snd (run_statement (is_postgres obj) st ps (working c))\<rparr>)\<rparr>)"
  using execute_statement [of "obj\<lparr>conn := Some c\<rparr>" c st ps] assms by simp

lemmas execute_sql =
  execute_obj [of _ _ InsertUser, folded sql_texts]
  execute_obj [of _ _ SelectUser, folded sql_texts]
  execute_obj [of _ _ SelectUserAll, folded sql_texts]
  execute_obj [of _ _ SelectValue, folded sql_texts]
  execute_obj [of _ _ Upsert, folded sql_texts]
  execute_obj [of _ _ DeleteEntry, folded sql_texts]

lemmas txn_defs = with_db_def DBConnection_enter_def DBConnection_exit_def stored_def
  connect_def commit_def rollback_def close_def

subsection \<open>Statements on the tables\<close>

lemma run_insert_user:
  "run_statement pg InsertUser [SqlText u, SqlText h] d =
     (if u \<in> set (map users_username (users d))
      then (Inl (unique_violation pg ''users.username''), d)
      else (Inr [], d\<lparr>users := users d @ [new_user d u h]\<rparr>))"
  by (simp add: run_statement_def)

lemma run_select_user:
  "run_statement pg SelectUser [SqlText u] d =
     (Inr (map user_brief (filter (\<lambda>r. users_username r = u) (users d))), d)"
  by (simp add: run_statement_def)

lemma run_select_user_all:
  "run_statement pg SelectUserAll [sql_of_str x] d =
     (Inr (case x of None \<Rightarrow> []
           | Some u \<Rightarrow> map user_all (filter (\<lambda>r. users_username r = u) (users d))), d)"
  by (simp add: run_statement_def sql_of_str_def split: option.splits)

lemma run_select_value:
  "run_statement pg SelectValue [SqlInt uid, SqlText k] d =
     (Inr (map value_row (filter (is_entry uid k) (storage_new d))), d)"
  by (simp add: run_statement_def)

lemma run_upsert:
  "run_statement pg Upsert [SqlInt uid, SqlText k, SqlText t] d =
     (if pg \<and> uid \<notin> set (map users_id (users d))
      then (Inl foreign_key_violation, d)
      else (Inr [], d\<lparr>storage_new := upsert_rows uid k (Some t) (storage_new d)\<rparr>))"
  by (simp add: run_statement_def)

lemma run_delete:
  "run_statement pg DeleteEntry [SqlInt uid, SqlText k] d =
     (Inr [], d\<lparr>storage_new := filter (\<lambda>r. \<not> is_entry uid k r) (storage_new d)\<rparr>)"
  by (simp add: run_statement_def)

text \<open>Every statement leaves the tables as they are, adds one user, upserts one entry or
  deletes the entries of one key; a failed statement and a query change nothing.\<close>

lemma run_statement_cases:
  "snd (run_statement pg st ps d) = d
   \<or> (\<exists>u h. st = InsertUser \<and> ps = [SqlText u, SqlText h]
         \<and> u \<notin> set (map users_username (users d))
         \<and> fst (run_statement pg st ps d) = Inr []
         \<and> snd (run_statement pg st ps d) = d\<lparr>users := users d @ [new_user d u h]\<rparr>)
   \<or> (\<exists>uid k v t. st = Upsert \<and> ps = [SqlInt uid, SqlText k, v]
         \<and> fst (run_statement pg st ps d) = Inr []
         \<and> snd (run_statement pg st ps d) =
             d\<lparr>storage_new := upsert_rows uid k t (storage_new d)\<rparr>)
   \<or> (\<exists>uid k. st = DeleteEntry \<and> ps = [SqlInt uid, SqlText k]
         \<and> fst (run_statement pg st ps d) = Inr []
         \<and> snd (run_statement pg st ps d) =
             d\<lparr>storage_new := filter (\<lambda>r. \<not> is_entry uid k r) (storage_new d)\<rparr>)"
  apply (cases st)
       apply (simp_all add: run_statement_def Let_def split: list.splits sqlval.splits)
  apply blast
  done

lemma run_statement_failure:
  "fst (run_statement pg st ps d) = Inl e \<Longrightarrow> snd (run_statement pg st ps d) = d"
  using run_statement_cases [of pg st ps d] by auto

lemma run_query_unchanged:
  "st = SelectUser \<or> st = SelectUserAll \<or> st = SelectValue \<Longrightarrow>
   snd (run_statement pg st ps d) = d"
  using run_statement_cases [of pg st ps d] by auto

subsection \<open>The concrete environment and state\<close>

lemma is_postgres_example_env: "is_postgres (get_db example_env)"
  by (simp add: get_db_def DBConnection_init_def example_env_def)

lemma example_session: "session example_app ''user_id'' = Some (SqlInt 1)"
  by (simp add: example_app_def)

lemma example_user: "(1::int) \<in> set (map users_id (users (db example_app)))"
  by (simp add: example_app_def example_db_def alice_row_def)

lemma example_no_entry:
  "filter (is_entry 1 ''budget'') (storage_new (db example_app)) = []"
  by (simp add: example_app_def example_db_def)

lemma example_pk: "pk_unique (storage_new (db example_app))"
  by (simp add: example_app_def example_db_def pk_unique_def)

lemma example_check:
  "check_password_hash example_env (generate_password_hash example_env ''pw123'') ''pw123''"
  by (simp add: example_env_def)

subsection \<open>The session guard\<close>

text \<open>
  Claim C6. A storage or chat endpoint called without \<open>user_id\<close> in the session answers
  401 \<open>Authentication required\<close> and returns the state it was given: the users table, the
  storage table and the session are those of before. The answer of the guard is the same
  for every wrapped function \<open>f\<close>, so \<open>f\<close> has not run.
\<close>

theorem guard_short_circuits:
  assumes "session s ''user_id'' = None"
  shows "login_required f s a =
           (Inr \<lparr>status = 401, body = JObj [(''error'', JStr ''Authentication required'')]\<rparr>, s)
       \<and> get_data E s key =
           (Inr \<lparr>status = 401, body = JObj [(''error'', JStr ''Authentication required'')]\<rparr>, s)
       \<and> set_data E s data =
           (Inr \<lparr>status = 401, body = JObj [(''error'', JStr ''Authentication required'')]\<rparr>, s)
       \<and> remove_data E s key =
           (Inr \<lparr>status = 401, body = JObj [(''error'', JStr ''Authentication required'')]\<rparr>, s)
       \<and> chat E s msg =
           (Inr \<lparr>status = 401, body = JObj [(''error'', JStr ''Authentication required'')]\<rparr>, s)"
  using assms
  by (simp add: login_required_def get_data_def set_data_def remove_data_def chat_def
      jsonify_status_def jsonify_def error_body_def)

theorem guard_short_circuits_witness:
  "session anonymous_app ''user_id'' = None
   \<and> get_data example_env anonymous_app ''budget'' =
        (Inr \<lparr>status = 401, body = JObj [(''error'', JStr ''Authentication required'')]\<rparr>,
         anonymous_app)"
proof -
  have h: "session anonymous_app ''user_id'' = None"
    by (simp add: anonymous_app_def)
  have "get_data example_env anonymous_app ''budget'' =
        (Inr \<lparr>status = 401, body = JObj [(''error'', JStr ''Authentication required'')]\<rparr>,
         anonymous_app)"
    by (rule guard_short_circuits [OF h, THEN conjunct2, THEN conjunct1])
  with h show ?thesis by (rule conjI)
qed

subsection \<open>The scope of a connection\<close>

text \<open>On a connection whose \<open>commit()\<close> and \<open>rollback()\<close> succeed, the scope commits
  and closes when the block returns a value, and rolls back and closes when an exception
  leaves the block.\<close>

lemma with_db_commit_close:
  assumes "blk (DBConnection_enter obj d) = (Inr x, self)" and "conn self = Some c"
    and "commit_error c = None"
  shows "with_db obj d blk =
           (Inr x, self\<lparr>conn := Some (c\<lparr>durable := working c,
                                          trace := trace c @ [Commit, Close]\<rparr>)\<rparr>)"
  using assms by (simp add: with_db_def DBConnection_exit_def commit_def close_def)

lemma with_db_rollback_close:
  assumes "blk (DBConnection_enter obj d) = (Inl e, self)" and "conn self = Some c"
    and "rollback_error c = None"
  shows "with_db obj d blk =
           (Inl e, self\<lparr>conn := Some (c\<lparr>working := durable c,
                                          trace := trace c @ [Rollback, Close]\<rparr>)\<rparr>)"
  using assms by (simp add: with_db_def DBConnection_exit_def rollback_def close_def)

lemma enter_connection: "conn (DBConnection_enter obj d) = Some (connect d)"
  by (simp add: DBConnection_enter_def)

text \<open>
  Claim C8 fails on the code. \<open>__exit__\<close> calls \<open>commit()\<close> or \<open>rollback()\<close> and then
  \<open>close()\<close> with no \<open>try ... finally\<close>, so the connection is closed only when the call
  before it returns. In the first scope the block of \<open>remove_data\<close> returns normally on
  SQLite, \<open>commit()\<close> raises \<open>database is locked\<close>, the exception leaves the \<open>with\<close>
  statement and no call was completed on the connection: it is neither committed nor
  closed. In the second scope the block of \<open>set_data\<close> raises on Postgres, \<open>rollback()\<close>
  raises in turn, and the connection is left open in the same way.
\<close>

theorem exit_failure_skips_close:
  "fst (locked_remove (DBConnection_enter (DBConnection_init None) example_db)) = Inr ()
   \<and> fst (with_db (DBConnection_init None) example_db locked_remove) = Inl database_locked
   \<and> map_option trace (conn (snd (with_db (DBConnection_init None) example_db locked_remove))) =
       Some []
   \<and> fst (lost_set (DBConnection_enter (get_db example_env) example_db)) =
       Inl foreign_key_violation
   \<and> fst (with_db (get_db example_env) example_db lost_set) = Inl connection_lost
   \<and> map_option trace (conn (snd (with_db (get_db example_env) example_db lost_set))) = Some []"
proof -
  let ?lite = "DBConnection_init None"
  let ?pg = "get_db example_env"
  have lite: "\<not> is_postgres ?lite"
    by (simp add: DBConnection_init_def)
  have a: "locked_remove (DBConnection_enter ?lite example_db) =
             (Inr (), ?lite\<lparr>conn := Some ((connect example_db)\<lparr>commit_error := Some database_locked,
                                   rollback_error := Some database_locked\<rparr>)\<rparr>)"
    using lite
    by (simp add: locked_remove_def refusing_def remove_data_block_def DBConnection_enter_def
        execute_sql connect_def run_statement_def example_db_def)
  have b: "lost_set (DBConnection_enter ?pg example_db) =
             (Inl foreign_key_violation,
              ?pg\<lparr>conn := Some ((connect example_db)\<lparr>commit_error := Some connection_lost,
                                   rollback_error := Some connection_lost\<rparr>)\<rparr>)"
    by (simp add: lost_set_def refusing_def set_data_block_def DBConnection_enter_def
        execute_sql connect_def run_statement_def example_db_def is_postgres_example_env
        sql_of_str_def alice_row_def Let_def)
  have c: "with_db ?lite example_db locked_remove =
             (Inl database_locked,
              ?lite\<lparr>conn := Some ((connect example_db)\<lparr>commit_error := Some database_locked,
                                   rollback_error := Some database_locked\<rparr>)\<rparr>)"
    by (simp add: with_db_def a DBConnection_exit_def commit_def)
  have d: "with_db ?pg example_db lost_set =
             (Inl connection_lost,
              ?pg\<lparr>conn := Some ((connect example_db)\<lparr>commit_error := Some connection_lost,
                                   rollback_error := Some connection_lost\<rparr>)\<rparr>)"
    by (simp add: with_db_def b DBConnection_exit_def rollback_def)
  show ?thesis
    unfolding c d a b by (simp add: connect_def)
qed

subsection \<open>Placeholder rewriting\<close>

lemma replace_no_qmark: "CHR ''?'' \<notin> set sql \<Longrightarrow> replace sql ''?'' ''%s'' = sql"
  by (induction sql) (auto simp add: replace_Nil replace_qmark_Cons)

lemma dialect_sql_no_qmark: "CHR ''?'' \<notin> set sql \<Longrightarrow> dialect_sql pg sql = sql"
  by (simp add: dialect_sql_def replace_no_qmark)

lemma init_db_sql_no_qmark: "sql \<in> set (init_db_sql pg) \<Longrightarrow> CHR ''?'' \<notin> set sql"
  by (cases pg) (auto simp add: init_db_sql_def sql_create_users_def sql_create_storage_def)

lemma run_statement_binds_every_qmark:
  "fst (run_statement pg st ps d) = Inr rows \<Longrightarrow>
   length ps = count_list (sqlite3_text st) (CHR ''?'')"
  by (cases st)
     (simp_all add: run_statement_def Let_def split: list.splits sqlval.splits if_splits)

text \<open>
  Claim C9. The texts passed to \<open>execute\<close> are those of the handlers and of \<open>init_db\<close>.
  On the Postgres dialect \<open>execute\<close> replaces each character \<open>?\<close> of the text by \<open>%s\<close>
  and keeps every other character in place; on the embedded dialect, and for a text
  without \<open>?\<close> such as the schema statements of \<open>init_db\<close>, the driver gets the text as
  written. In a statement of the handlers every \<open>?\<close> is a placeholder: the engine runs the
  statement only with as many parameters as the text has \<open>?\<close>. The rewritten text is the
  statement in the placeholder style of \<open>psycopg2\<close>, and \<open>psycopg2\<close> reads it as the
  statement that \<open>sqlite3\<close> reads from the original text. The driver is called with that
  text and the parameters (none given: the empty tuple), and its result, a failure
  included, is the result of \<open>execute\<close>.
\<close>

theorem execute_rewrites_placeholders:
  assumes "conn self = Some c"
  shows "dialect_sql False sql = sql
       \<and> dialect_sql True sql = concat (map (\<lambda>ch. if ch = CHR ''?'' then ''%s'' else [ch]) sql)
       \<and> (CHR ''?'' \<notin> set sql \<longrightarrow> dialect_sql pg sql = sql)
       \<and> (\<forall>t \<in> set (init_db_sql pg). dialect_sql pg t = t)
       \<and> dialect_sql True (sqlite3_text st) = psycopg2_text st
       \<and> parse_statement True (dialect_sql True (sqlite3_text st)) = Some st
       \<and> parse_statement False (dialect_sql False (sqlite3_text st)) = Some st
       \<and> (\<forall>rows. fst (run_statement pg st ps d) = Inr rows \<longrightarrow>
             length ps = count_list (sqlite3_text st) (CHR ''?''))
       \<and> DBConnection_execute self sql params =
           (fst (cursor_execute (is_postgres self) (dialect_sql (is_postgres self) sql)
                   (case params of None \<Rightarrow> [] | Some ps \<Rightarrow> ps) c),
            self\<lparr>conn := Some (snd (cursor_execute (is_postgres self)
                   (dialect_sql (is_postgres self) sql)
                   (case params of None \<Rightarrow> [] | Some ps \<Rightarrow> ps) c))\<rparr>)
       \<and> (\<forall>e. fst (cursor_execute (is_postgres self) (dialect_sql (is_postgres self) sql)
                   (case params of None \<Rightarrow> [] | Some ps \<Rightarrow> ps) c) = Inl e
              \<longrightarrow> fst (DBConnection_execute self sql params) = Inl e)"
proof -
  have a: "dialect_sql False sql = sql"
    by (simp add: dialect_sql_def)
  have b: "dialect_sql True sql = concat (map (\<lambda>ch. if ch = CHR ''?'' then ''%s'' else [ch]) sql)"
    by (simp add: dialect_sql_def replace_qmark)
  have c: "CHR ''?'' \<notin> set sql \<longrightarrow> dialect_sql pg sql = sql"
    by (simp add: dialect_sql_no_qmark)
  have d: "\<forall>t \<in> set (init_db_sql pg). dialect_sql pg t = t"
    using init_db_sql_no_qmark dialect_sql_no_qmark by blast
  have e: "dialect_sql True (sqlite3_text st) = psycopg2_text st"
    by (simp add: dialect_sql_def replace_sqlite3_text del: sqlite3_text.simps psycopg2_text.simps)
  have f: "parse_statement True (dialect_sql True (sqlite3_text st)) = Some st"
    unfolding e by (rule parse_psycopg2_text)
  have g: "parse_statement False (dialect_sql False (sqlite3_text st)) = Some st"
    by (simp add: dialect_sql_def parse_sqlite3_text del: sqlite3_text.simps)
  have h: "\<forall>rows. fst (run_statement pg st ps d) = Inr rows \<longrightarrow>
             length ps = count_list (sqlite3_text st) (CHR ''?'')"
    using run_statement_binds_every_qmark by blast
  have i: "DBConnection_execute self sql params =
           (fst (cursor_execute (is_postgres self) (dialect_sql (is_postgres self) sql)
                   (case params of None \<Rightarrow> [] | Some ps \<Rightarrow> ps) c),
            self\<lparr>conn := Some (snd (cursor_execute (is_postgres self)
                   (dialect_sql (is_postgres self) sql)
                   (case params of None \<Rightarrow> [] | Some ps \<Rightarrow> ps) c))\<rparr>)"
    using assms by (simp add: DBConnection_execute_def split: prod.splits sum.splits)
  have j: "\<forall>e. fst (cursor_execute (is_postgres self) (dialect_sql (is_postgres self) sql)
                   (case params of None \<Rightarrow> [] | Some ps \<Rightarrow> ps) c) = Inl e
              \<longrightarrow> fst (DBConnection_execute self sql params) = Inl e"
    unfolding i by simp
  from a b c d e f g h i j show ?thesis
    by (intro conjI)
qed

theorem execute_rewrites_placeholders_witness:
  "conn ((get_db example_env)\<lparr>conn := Some (connect example_db)\<rparr>) = Some (connect example_db)
   \<and> dialect_sql True sql_upsert = psycopg2_text Upsert
   \<and> dialect_sql False sql_upsert = sql_upsert
   \<and> sql_create_storage \<in> set (init_db_sql True)
   \<and> dialect_sql True sql_create_storage = sql_create_storage
   \<and> fst (run_statement True Upsert [SqlInt 1, SqlText ''budget'', SqlText ''500''] example_db) =
       Inr []
   \<and> length [SqlInt 1, SqlText ''budget'', SqlText ''500''] = count_list sql_upsert (CHR ''?'')
   \<and> fst (cursor_execute True (dialect_sql True sql_upsert)
            [SqlInt 7, SqlText ''budget'', SqlText ''500''] (connect example_db)) =
       Inl foreign_key_violation
   \<and> fst (DBConnection_execute ((get_db example_env)\<lparr>conn := Some (connect example_db)\<rparr>)
            sql_upsert (Some [SqlInt 7, SqlText ''budget'', SqlText ''500''])) =
       Inl foreign_key_violation"
proof -
  let ?self = "(get_db example_env)\<lparr>conn := Some (connect example_db)\<rparr>"
  let ?ps = "[SqlInt 7, SqlText ''budget'', SqlText ''500'']"
  let ?qs = "[SqlInt 1, SqlText ''budget'', SqlText ''500'']"
  have h1: "conn ?self = Some (connect example_db)"
    by simp
  have h2: "sql_create_storage \<in> set (init_db_sql True)"
    by (simp add: init_db_sql_def)
  have h3: "fst (run_statement True Upsert ?qs example_db) = Inr []"
    by (simp add: run_statement_def example_db_def alice_row_def)
  have pg: "is_postgres ?self = True"
    by (simp add: is_postgres_example_env)
  have h4: "fst (cursor_execute True (dialect_sql True sql_upsert) ?ps (connect example_db)) =
              Inl foreign_key_violation"
    by (simp add: dialect_sql_def sql_texts replace_sqlite3_text cursor_execute_def
        parse_psycopg2_text connect_def run_statement_def example_db_def alice_row_def
        del: sqlite3_text.simps psycopg2_text.simps)
  note inst = execute_rewrites_placeholders [OF h1, of sql_upsert True Upsert ?qs example_db "Some ?ps",
      folded sql_texts]
  have c1: "dialect_sql True sql_upsert = psycopg2_text Upsert"
    using inst by blast
  have c2: "dialect_sql False sql_upsert = sql_upsert"
    using inst by blast
  have c3: "dialect_sql True sql_create_storage = sql_create_storage"
    using inst h2 by blast
  have c4: "length ?qs = count_list sql_upsert (CHR ''?'')"
    using inst h3 by blast
  have c5: "fst (DBConnection_execute ?self sql_upsert (Some ?ps)) = Inl foreign_key_violation"
    using inst h4 unfolding pg by simp
  from h1 c1 c2 h2 c3 h3 c4 h4 c5 show ?thesis
    by (intro conjI)
qed

subsection \<open>What the storage handlers do\<close>

lemma get_data_impl_effect:
  assumes "session s ''user_id'' = Some uid"
  shows "get_data_impl E s key =
     ((case fst (run_statement (is_postgres (get_db E)) SelectValue [uid, SqlText key] (db s)) of
         Inl e \<Rightarrow> Inl e
       | Inr rows \<Rightarrow> get_data_result E rows), s)"
  using assms
  by (simp add: get_data_impl_def get_data_block_def txn_defs execute_sql run_query_unchanged
      split: sum.splits)

lemma set_data_impl_effect:
  assumes "session s ''user_id'' = Some uid"
  shows "set_data_impl E s data =
     (case fst (run_statement (is_postgres (get_db E)) Upsert
             [uid, sql_of_str (req_key data),
              SqlText (json_dumps E (case req_value data of None \<Rightarrow> JNull | Some v \<Rightarrow> v))]
             (db s)) of
        Inl e \<Rightarrow> (Inl e, s)
      | Inr rows \<Rightarrow>
          (Inr (jsonify success_body),
           s\<lparr>db := snd (run_statement (is_postgres (get_db E)) Upsert
             [uid, sql_of_str (req_key data),
              SqlText (json_dumps E (case req_value data of None \<Rightarrow> JNull | Some v \<Rightarrow> v))]
             (db s))\<rparr>))"
  using assms
  by (simp add: set_data_impl_def set_data_block_def txn_defs execute_sql split: sum.splits)

lemma remove_data_impl_effect:
  assumes "session s ''user_id'' = Some uid"
  shows "remove_data_impl E s key =
     (case fst (run_statement (is_postgres (get_db E)) DeleteEntry [uid, SqlText key] (db s)) of
        Inl e \<Rightarrow> (Inl e, s)
      | Inr rows \<Rightarrow>
          (Inr (jsonify success_body),
           s\<lparr>db := snd (run_statement (is_postgres (get_db E)) DeleteEntry
                         [uid, SqlText key] (db s))\<rparr>))"
  using assms
  by (simp add: remove_data_impl_def remove_data_block_def txn_defs execute_sql
      split: sum.splits)

lemma get_data_user:
  assumes "session s ''user_id'' = Some (SqlInt uid)"
  shows "get_data E s key =
           (get_data_result E (map value_row (filter (is_entry uid key) (storage_new (db s)))), s)"
  using assms
  by (simp add: get_data_def login_required_def get_data_impl_effect run_select_value)

lemma set_data_user:
  assumes "session s ''user_id'' = Some (SqlInt uid)"
  shows "set_data E s \<lparr>req_key = Some k, req_value = rv\<rparr> =
           (if is_postgres (get_db E) \<and> uid \<notin> set (map users_id (users (db s)))
            then (Inl foreign_key_violation, s)
            else (Inr (jsonify success_body),
                  s\<lparr>db := (db s)\<lparr>storage_new :=
                     upsert_rows uid k
                       (Some (json_dumps E (case rv of None \<Rightarrow> JNull | Some v \<Rightarrow> v)))
                       (storage_new (db s))\<rparr>\<rparr>))"
  using assms
  by (simp add: set_data_def login_required_def set_data_impl_effect sql_of_str_def run_upsert)

lemma remove_data_user:
  assumes "session s ''user_id'' = Some (SqlInt uid)"
  shows "remove_data E s k =
           (Inr (jsonify success_body),
            s\<lparr>db := (db s)\<lparr>storage_new :=
                 filter (\<lambda>r. \<not> is_entry uid k r) (storage_new (db s))\<rparr>\<rparr>)"
  using assms
  by (simp add: remove_data_def login_required_def remove_data_impl_effect run_delete)

subsection \<open>Upserted rows\<close>

lemma filter_upsert_rows:
  "filter (is_entry uid k) (upsert_rows uid k t rows) =
     (if \<exists>r \<in> set rows. is_entry uid k r
      then map (\<lambda>r. r\<lparr>storage_value := t\<rparr>) (filter (is_entry uid k) rows)
      else [\<lparr>storage_user_id = uid, storage_key = k, storage_value = t\<rparr>])"
proof -
  have m: "filter (is_entry uid k)
             (map (\<lambda>r. if is_entry uid k r then r\<lparr>storage_value := t\<rparr> else r) rs) =
           map (\<lambda>r. r\<lparr>storage_value := t\<rparr>) (filter (is_entry uid k) rs)" for rs
    by (induction rs) (simp_all add: is_entry_def)
  have n: "\<forall>r \<in> set rs. \<not> is_entry uid k r \<Longrightarrow> filter (is_entry uid k) rs = []" for rs
    by (induction rs) simp_all
  have e: "is_entry uid k \<lparr>storage_user_id = uid, storage_key = k, storage_value = t\<rparr>"
    by (simp add: is_entry_def)
  show ?thesis
    by (simp add: upsert_rows_def m n e)
qed

lemma get_after_upsert:
  "\<exists>r rs. filter (is_entry uid k) (upsert_rows uid k t rows) = r # rs \<and> storage_value r = t"
proof (cases "\<exists>r \<in> set rows. is_entry uid k r")
  case True
  then obtain r rs where "filter (is_entry uid k) rows = r # rs"
    by (cases "filter (is_entry uid k) rows") (auto simp: filter_empty_conv)
  then show ?thesis using True by (simp add: filter_upsert_rows)
next
  case False
  then show ?thesis by (simp add: filter_upsert_rows)
qed

lemma get_data_result_stored:
  assumes "storage_value r = Some t"
  shows "get_data_result E (value_row r # rows) =
           (case json_loads E t of
              None \<Rightarrow> Inl (Exn JSONDecodeError ''Expecting value'')
            | Some j \<Rightarrow> Inr (jsonify j))"
  using assms
  by (simp add: get_data_result_def fetchone_def value_row_def loads_value_def
      split: option.splits)

lemma get_data_result_none: "get_data_result E [] = Inr (jsonify JNull)"
  by (simp add: get_data_result_def fetchone_def)

subsection \<open>The round trip of module \<open>json\<close>: numbers\<close>















subsection \<open>A number followed by a separator\<close>

lemma sep_cases:
  assumes "sep r"
  obtains "r = []" | c r' where "r = c # r'" and "c = CHR '','' \<or> c = CHR '']'' \<or> c = CHR ''}''"
  using assms by (cases r) (auto simp: sep_def)









subsection \<open>Strings\<close>






subsection \<open>White space\<close>








subsection \<open>Atoms\<close>










subsection \<open>Arrays and objects\<close>

lemma join_start:
  assumes "xs \<noteq> []" and "hd xs \<noteq> []"
  shows "hd (join xs @ r) = hd (hd xs)" and "join xs \<noteq> []"
  using assms by (cases xs rule: join.cases; simp)+






subsection \<open>Every value is read back\<close>















subsection \<open>Set, then get\<close>





lemma set_data_ok:
  assumes "session s ''user_id'' = Some (SqlInt uid)"
    and "is_postgres (get_db E) \<longrightarrow> uid \<in> set (map users_id (users (db s)))"
  shows "set_data E s \<lparr>req_key = Some k, req_value = rv\<rparr> =
           (Inr (jsonify success_body),
            s\<lparr>db := (db s)\<lparr>storage_new :=
                 upsert_rows uid k
                   (Some (json_dumps E (case rv of None \<Rightarrow> JNull | Some v \<Rightarrow> v)))
                   (storage_new (db s))\<rparr>\<rparr>)"
  using assms by (auto simp: set_data_user)

lemma get_after_set:
  assumes "session s ''user_id'' = Some (SqlInt uid)"
    and "is_postgres (get_db E) \<longrightarrow> uid \<in> set (map users_id (users (db s)))"
  shows "fst (get_data E (snd (set_data E s \<lparr>req_key = Some k, req_value = rv\<rparr>)) k) =
           (case json_loads E (json_dumps E (case rv of None \<Rightarrow> JNull | Some v \<Rightarrow> v)) of
              None \<Rightarrow> Inl (Exn JSONDecodeError ''Expecting value'')
            | Some j \<Rightarrow> Inr (jsonify j))"
proof -
  let ?t = "json_dumps E (case rv of None \<Rightarrow> JNull | Some v \<Rightarrow> v)"
  obtain r rs where f: "filter (is_entry uid k)
        (upsert_rows uid k (Some ?t) (storage_new (db s))) = r # rs"
      and v: "storage_value r = Some ?t"
    using get_after_upsert by blast
  show ?thesis
    using assms(1)
    by (simp add: set_data_ok [OF assms] get_data_user f get_data_result_stored [OF v])
qed

subsection \<open>A stored null\<close>

text \<open>
  Claim C10. After \<open>set_data\<close> has stored \<open>null\<close> under a key (the value given as
  \<open>null\<close>, or the field left out), \<open>get_data\<close> of that key answers \<open>null\<close> with status
  200, and so does \<open>get_data\<close> in any state \<open>s'\<close> of the same user that has no entry for
  the key: the two answers are equal. (\<open>json.loads\<close> reads the text that \<open>json.dumps\<close>
  writes for \<open>null\<close> back as \<open>null\<close>.)
\<close>

theorem stored_null_reads_as_absent:
  assumes "session s ''user_id'' = Some (SqlInt uid)"
    and "is_postgres (get_db E) \<longrightarrow> uid \<in> set (map users_id (users (db s)))"
    and "json_loads E (json_dumps E JNull) = Some JNull"
    and "session s' ''user_id'' = Some (SqlInt uid)"
    and "filter (is_entry uid k) (storage_new (db s')) = []"
    and "rv = None \<or> rv = Some JNull"
  shows "fst (get_data E (snd (set_data E s \<lparr>req_key = Some k, req_value = rv\<rparr>)) k) =
           Inr (jsonify JNull)
       \<and> fst (get_data E s' k) = Inr (jsonify JNull)"
proof -
  have "fst (get_data E s' k) = Inr (jsonify JNull)"
    using assms(4,5) by (simp add: get_data_user get_data_result_none)
  moreover have "fst (get_data E (snd (set_data E s \<lparr>req_key = Some k, req_value = rv\<rparr>)) k) =
           Inr (jsonify JNull)"
    using assms(3,6) by (auto simp: get_after_set [OF assms(1,2)])
  ultimately show ?thesis by simp
qed

theorem stored_null_reads_as_absent_witness:
  "session example_app ''user_id'' = Some (SqlInt 1)
   \<and> is_postgres (get_db example_env)
   \<and> 1 \<in> set (map users_id (users (db example_app)))
   \<and> json_loads example_env (json_dumps example_env JNull) = Some JNull
   \<and> filter (is_entry 1 ''budget'') (storage_new (db example_app)) = []
   \<and> fst (get_data example_env
        (snd (set_data example_env example_app
               \<lparr>req_key = Some ''budget'', req_value = Some JNull\<rparr>)) ''budget'') =
       Inr (jsonify JNull)
   \<and> fst (get_data example_env example_app ''budget'') = Inr (jsonify JNull)"
proof -
  have h2: "is_postgres (get_db example_env) \<longrightarrow>
            1 \<in> set (map users_id (users (db example_app)))"
    using example_user by simp
  have h3: "json_loads example_env (json_dumps example_env JNull) = Some JNull"
    by (simp add: example_env_def example_dumps_def example_loads_def)
  have h6: "Some JNull = None \<or> Some JNull = Some JNull"
    by simp
  note r = stored_null_reads_as_absent
    [OF example_session h2 h3 example_session example_no_entry h6]
  from example_session is_postgres_example_env example_user h3 example_no_entry
    r [THEN conjunct1] r [THEN conjunct2]
  show ?thesis by (intro conjI)
qed

subsection \<open>The primary key of the storage table\<close>

lemma pk_unique_upsert_rows:
  assumes "pk_unique rows"
  shows "pk_unique (upsert_rows uid k t rows)"
proof (cases "\<exists>r \<in> set rows. is_entry uid k r")
  case True
  have eq: "(\<lambda>r. (storage_user_id r, storage_key r)) \<circ>
          (\<lambda>r. if is_entry uid k r then r\<lparr>storage_value := t\<rparr> else r) =
        (\<lambda>r. (storage_user_id r, storage_key r))"
    by (rule ext) simp
  from True assms show ?thesis
    by (simp add: upsert_rows_def pk_unique_def eq)
next
  case False
  then have "(uid, k) \<notin> set (map (\<lambda>r. (storage_user_id r, storage_key r)) rows)"
    by (auto simp: is_entry_def)
  with False assms show ?thesis
    by (simp add: upsert_rows_def pk_unique_def)
qed

lemma pk_unique_filter: "pk_unique rows \<Longrightarrow> pk_unique (filter P rows)"
  by (simp add: pk_unique_def distinct_map_filter)

lemma pk_unique_run_statement:
  assumes "pk_unique (storage_new d)"
  shows "pk_unique (storage_new (snd (run_statement pg st ps d)))"
  using run_statement_cases [of pg st ps d] assms
  by (auto simp: pk_unique_upsert_rows pk_unique_filter)

lemma pk_unique_one_row:
  assumes "pk_unique rows"
  shows "length (filter (is_entry uid k) rows) \<le> 1"
  using assms
proof (induction rows)
  case Nil
  then show ?case by simp
next
  case (Cons r rows)
  have tl: "pk_unique rows"
    using Cons.prems by (simp add: pk_unique_def)
  show ?case
  proof (cases "is_entry uid k r")
    case True
    have "\<not> is_entry uid k x" if "x \<in> set rows" for x
    proof
      assume "is_entry uid k x"
      with True have "(storage_user_id x, storage_key x) = (storage_user_id r, storage_key r)"
        by (simp add: is_entry_def)
      with that have "(storage_user_id r, storage_key r)
          \<in> set (map (\<lambda>r. (storage_user_id r, storage_key r)) rows)"
        by (metis (mono_tags, lifting) image_eqI list.set_map)
      with Cons.prems show False by (simp add: pk_unique_def)
    qed
    then have "filter (is_entry uid k) rows = []"
      by (simp add: filter_empty_conv)
    with True show ?thesis by simp
  next
    case False
    with Cons.IH [OF tl] show ?thesis by simp
  qed
qed


subsection \<open>What register and login do\<close>

lemma str_in_unique_violation:
  "str_in ''UNIQUE constraint failed'' (str_of_exn (unique_violation pg ''users.username''))
   \<or> str_in ''duplicate key value'' (str_of_exn (unique_violation pg ''users.username''))"
  by (simp add: unique_violation_def)

lemma register_invalid:
  assumes "cred_username data = None \<or> cred_username data = Some []
         \<or> cred_password data = None \<or> cred_password data = Some []"
  shows "register E s data =
           (Inr (jsonify_status (error_body ''Username and password required'') 400), s)"
  using assms by (auto simp: register_def split: option.splits)

lemma register_duplicate:
  assumes "u \<noteq> []" and "p \<noteq> []" and "u \<in> set (map users_username (users (db s)))"
  shows "register E s \<lparr>cred_username = Some u, cred_password = Some p\<rparr> =
           (Inr (jsonify_status (error_body ''Username already exists'') 400), s)"
  using assms str_in_unique_violation [of "is_postgres (get_db E)"]
  by (simp add: register_def register_block_def txn_defs execute_sql run_insert_user)

lemma register_fresh:
  assumes "u \<noteq> []" and "p \<noteq> []" and "u \<notin> set (map users_username (users (db s)))"
  shows "register E s \<lparr>cred_username = Some u, cred_password = Some p\<rparr> =
           (Inr (jsonify (JObj [(''status'', JStr ''success''),
                   (''user'', JObj [(''id'', JInt (next_id (users (db s)))),
                                    (''username'', JStr u), (''role'', JStr ''user'')])])),
            \<lparr>db = (db s)\<lparr>users := users (db s) @
                     [new_user (db s) u (generate_password_hash E p)]\<rparr>,
             session = (session s)(''user_id'' \<mapsto> SqlInt (next_id (users (db s))),
                                   ''username'' \<mapsto> SqlText u)\<rparr>)"
proof -
  have f: "filter (\<lambda>r. users_username r = u) (users (db s)) = []"
    using assms(3) by (auto simp: filter_empty_conv)
  show ?thesis
    using assms
    by (simp add: register_def register_block_def txn_defs execute_sql run_insert_user
        run_select_user f fetchone_def user_brief_def json_of_row_def json_of_sqlval_def
        new_user_def)
qed

lemma login_unknown:
  assumes "cred_username data = None
         \<or> (\<exists>u. cred_username data = Some u
                \<and> filter (\<lambda>r. users_username r = u) (users (db s)) = [])"
  shows "login E s data =
           (Inr (jsonify_status (error_body ''Invalid username or password'') 401), s)"
  using assms
  by (auto simp: login_def login_block_def txn_defs execute_sql run_select_user_all
      fetchone_def)

lemma login_known:
  assumes "cred_username data = Some u"
    and "filter (\<lambda>r. users_username r = u) (users (db s)) = r # rs"
  shows "login E s data =
     (case cred_password data of
        None \<Rightarrow> (Inl (Exn AttributeError ''NoneType object has no attribute encode''), s)
      | Some p \<Rightarrow>
          if check_password_hash E (users_password_hash r) p
          then (Inr (jsonify (JObj [(''status'', JStr ''success''),
                       (''user'', JObj [(''id'', JInt (users_id r)),
                                        (''username'', JStr (users_username r)),
                                        (''role'', JStr (users_role r))])])),
                \<lparr>db = db s,
                 session = (session s)(''user_id'' \<mapsto> SqlInt (users_id r),
                                       ''username'' \<mapsto> SqlText (users_username r))\<rparr>)
          else (Inr (jsonify_status (error_body ''Invalid username or password'') 401), s))"
  using assms
  by (simp add: login_def login_block_def txn_defs execute_sql run_select_user_all
      fetchone_def user_all_def check_password_def json_of_sqlval_def
      split: option.splits)

lemma login_db: "db (snd (login E s data)) = db s"
proof (cases "cred_username data")
  case None
  then show ?thesis by (simp add: login_unknown)
next
  case (Some u)
  show ?thesis
  proof (cases "filter (\<lambda>r. users_username r = u) (users (db s))")
    case Nil
    with Some show ?thesis by (simp add: login_unknown)
  next
    case (Cons r rs)
    show ?thesis
      by (simp add: login_known [OF Some Cons] split: option.splits)
  qed
qed

subsection \<open>Register, then login\<close>

text \<open>
  Claim C5. For a non-empty username that is not registered and a non-empty password,
  \<open>register\<close> succeeds with the new user's id, and a following \<open>login\<close> with the same
  credentials, from whatever session \<open>sess\<close> the caller then has, succeeds with the same
  id in the answer and in the session. The hypothesis on the library is that
  \<open>check_password_hash\<close> accepts the hash that \<open>generate_password_hash\<close> made.
\<close>

theorem register_then_login:
  assumes "u \<noteq> []" and "p \<noteq> []"
    and "u \<notin> set (map users_username (users (db s)))"
    and "check_password_hash E (generate_password_hash E p) p"
  shows "fst (register E s \<lparr>cred_username = Some u, cred_password = Some p\<rparr>) =
           Inr (jsonify (JObj [(''status'', JStr ''success''),
                  (''user'', JObj [(''id'', JInt (next_id (users (db s)))),
                                   (''username'', JStr u), (''role'', JStr ''user'')])]))
       \<and> session (snd (register E s \<lparr>cred_username = Some u, cred_password = Some p\<rparr>))
            ''user_id'' = Some (SqlInt (next_id (users (db s))))
       \<and> fst (login E
              ((snd (register E s \<lparr>cred_username = Some u, cred_password = Some p\<rparr>))
                 \<lparr>session := sess\<rparr>)
              \<lparr>cred_username = Some u, cred_password = Some p\<rparr>) =
           Inr (jsonify (JObj [(''status'', JStr ''success''),
                  (''user'', JObj [(''id'', JInt (next_id (users (db s)))),
                                   (''username'', JStr u), (''role'', JStr ''user'')])]))
       \<and> session (snd (login E
              ((snd (register E s \<lparr>cred_username = Some u, cred_password = Some p\<rparr>))
                 \<lparr>session := sess\<rparr>)
              \<lparr>cred_username = Some u, cred_password = Some p\<rparr>)) ''user_id'' =
           Some (SqlInt (next_id (users (db s))))"
proof -
  let ?c = "\<lparr>cred_username = Some u, cred_password = Some p\<rparr>"
  let ?r = "new_user (db s) u (generate_password_hash E p)"
  let ?s1 = "(snd (register E s ?c))\<lparr>session := sess\<rparr>"
  have f: "filter (\<lambda>r. users_username r = u) (users (db s)) = []"
    using assms(3) by (auto simp: filter_empty_conv)
  have g: "filter (\<lambda>r. users_username r = u) (users (db ?s1)) = [?r]"
    by (simp add: register_fresh [OF assms(1,2,3)] f new_user_def)
  have c: "cred_username ?c = Some u"
    by simp
  have l: "login E ?s1 ?c =
      (Inr (jsonify (JObj [(''status'', JStr ''success''),
                  (''user'', JObj [(''id'', JInt (next_id (users (db s)))),
                                   (''username'', JStr u), (''role'', JStr ''user'')])])),
       \<lparr>db = db ?s1,
        session = (session ?s1)(''user_id'' \<mapsto> SqlInt (next_id (users (db s))),
                                ''username'' \<mapsto> SqlText u)\<rparr>)"
    using login_known [OF c g] assms(4) by (simp add: new_user_def)
  have r1: "fst (register E s ?c) =
           Inr (jsonify (JObj [(''status'', JStr ''success''),
                  (''user'', JObj [(''id'', JInt (next_id (users (db s)))),
                                   (''username'', JStr u), (''role'', JStr ''user'')])]))"
    by (simp add: register_fresh [OF assms(1,2,3)])
  have r2: "session (snd (register E s ?c)) ''user_id'' =
              Some (SqlInt (next_id (users (db s))))"
    by (simp add: register_fresh [OF assms(1,2,3)])
  have l1: "fst (login E ?s1 ?c) =
           Inr (jsonify (JObj [(''status'', JStr ''success''),
                  (''user'', JObj [(''id'', JInt (next_id (users (db s)))),
                                   (''username'', JStr u), (''role'', JStr ''user'')])]))"
    by (simp only: l fst_conv)
  have l2: "session (snd (login E ?s1 ?c)) ''user_id'' =
              Some (SqlInt (next_id (users (db s))))"
    by (simp only: l) simp
  from r1 r2 l1 l2 show ?thesis by (intro conjI)
qed

theorem register_then_login_witness:
  "''alice'' \<noteq> [] \<and> ''pw123'' \<noteq> []
   \<and> ''alice'' \<notin> set (map users_username (users (db empty_app)))
   \<and> check_password_hash example_env (generate_password_hash example_env ''pw123'') ''pw123''
   \<and> session (snd (register example_env empty_app
          \<lparr>cred_username = Some ''alice'', cred_password = Some ''pw123''\<rparr>)) ''user_id'' =
       Some (SqlInt (next_id (users (db empty_app))))
   \<and> session (snd (login example_env
          ((snd (register example_env empty_app
                  \<lparr>cred_username = Some ''alice'', cred_password = Some ''pw123''\<rparr>))
             \<lparr>session := Map.empty\<rparr>)
          \<lparr>cred_username = Some ''alice'', cred_password = Some ''pw123''\<rparr>)) ''user_id'' =
       Some (SqlInt (next_id (users (db empty_app))))
   \<and> next_id (users (db empty_app)) = 1"
proof -
  have h1: "''alice'' \<noteq> []" and h2: "''pw123'' \<noteq> []"
    by simp_all
  have h3: "''alice'' \<notin> set (map users_username (users (db empty_app)))"
    by (simp add: empty_app_def)
  have n: "next_id (users (db empty_app)) = 1"
    by (simp add: empty_app_def next_id_def)
  note r = register_then_login [OF h1 h2 h3 example_check, of Map.empty]
  from h1 h2 h3 example_check r [THEN conjunct2, THEN conjunct1]
    r [THEN conjunct2, THEN conjunct2, THEN conjunct2] n
  show ?thesis by (intro conjI)
qed

subsection \<open>Registering a name twice\<close>

lemma register_success_fresh:
  assumes "fst (register E s \<lparr>cred_username = Some u, cred_password = Some p\<rparr>) = Inr r"
    and "status r = 200"
  shows "u \<noteq> [] \<and> p \<noteq> [] \<and> u \<notin> set (map users_username (users (db s)))"
proof -
  let ?c = "\<lparr>cred_username = Some u, cred_password = Some p\<rparr>"
  have "u \<noteq> [] \<and> p \<noteq> []"
  proof (rule ccontr)
    assume "\<not> (u \<noteq> [] \<and> p \<noteq> [])"
    then have "cred_username ?c = None \<or> cred_username ?c = Some []
         \<or> cred_password ?c = None \<or> cred_password ?c = Some []"
      by auto
    from register_invalid [OF this, of E s] assms show False
      by (auto simp: jsonify_status_def jsonify_def)
  qed
  moreover have "u \<notin> set (map users_username (users (db s)))"
  proof
    assume "u \<in> set (map users_username (users (db s)))"
    with calculation have "register E s ?c =
        (Inr (jsonify_status (error_body ''Username already exists'') 400), s)"
      by (simp add: register_duplicate)
    with assms show False
      by (auto simp: jsonify_status_def jsonify_def)
  qed
  ultimately show ?thesis by simp
qed

text \<open>
  Claim C3, as amended. After a successful \<open>register\<close> of a username, a second
  \<open>register\<close> of the same username with a non-empty password answers 400
  \<open>Username already exists\<close> on both dialects and returns the state of before: the
  first user's row (id, username, password hash, role) is the last row of \<open>users\<close>, as the
  first call stored it.
\<close>

theorem register_twice:
  assumes "fst (register E s \<lparr>cred_username = Some u, cred_password = Some p1\<rparr>) = Inr r"
    and "status r = 200"
    and "p2 \<noteq> []"
  shows "register E (snd (register E s \<lparr>cred_username = Some u, cred_password = Some p1\<rparr>))
           \<lparr>cred_username = Some u, cred_password = Some p2\<rparr> =
           (Inr \<lparr>status = 400, body = JObj [(''error'', JStr ''Username already exists'')]\<rparr>,
            snd (register E s \<lparr>cred_username = Some u, cred_password = Some p1\<rparr>))
       \<and> users (db (snd (register E s \<lparr>cred_username = Some u, cred_password = Some p1\<rparr>))) =
           users (db s) @ [new_user (db s) u (generate_password_hash E p1)]"
proof -
  let ?s1 = "snd (register E s \<lparr>cred_username = Some u, cred_password = Some p1\<rparr>)"
  from register_success_fresh [OF assms(1,2)]
  have u: "u \<noteq> []" and p: "p1 \<noteq> []"
    and n: "u \<notin> set (map users_username (users (db s)))"
    by simp_all
  have s1: "users (db ?s1) = users (db s) @ [new_user (db s) u (generate_password_hash E p1)]"
    by (simp add: register_fresh [OF u p n])
  then have "u \<in> set (map users_username (users (db ?s1)))"
    by (simp add: new_user_def)
  from register_duplicate [OF u assms(3) this, of E] s1
  show ?thesis
    by (simp add: jsonify_status_def jsonify_def error_body_def)
qed

lemma example_first_register:
  "register example_env empty_app
     \<lparr>cred_username = Some ''alice'', cred_password = Some ''pw123''\<rparr> =
   (Inr (jsonify (JObj [(''status'', JStr ''success''),
           (''user'', JObj [(''id'', JInt 1), (''username'', JStr ''alice''),
                            (''role'', JStr ''user'')])])),
    \<lparr>db = \<lparr>users = [alice_row], storage_new = []\<rparr>,
     session = [''user_id'' \<mapsto> SqlInt 1, ''username'' \<mapsto> SqlText ''alice'']\<rparr>)"
proof -
  have h1: "''alice'' \<noteq> []" and h2: "''pw123'' \<noteq> []"
    by simp_all
  have h3: "''alice'' \<notin> set (map users_username (users (db empty_app)))"
    by (simp add: empty_app_def)
  show ?thesis
    by (simp add: register_fresh [OF h1 h2 h3])
       (simp add: empty_app_def next_id_def new_user_def alice_row_def example_env_def)
qed

theorem register_twice_witness:
  "fst (register example_env empty_app
         \<lparr>cred_username = Some ''alice'', cred_password = Some ''pw123''\<rparr>) =
     Inr (jsonify (JObj [(''status'', JStr ''success''),
           (''user'', JObj [(''id'', JInt 1), (''username'', JStr ''alice''),
                            (''role'', JStr ''user'')])]))
   \<and> status (jsonify (JObj [(''status'', JStr ''success''),
           (''user'', JObj [(''id'', JInt 1), (''username'', JStr ''alice''),
                            (''role'', JStr ''user'')])])) = 200
   \<and> ''hunter2'' \<noteq> []
   \<and> register example_env
        (snd (register example_env empty_app
               \<lparr>cred_username = Some ''alice'', cred_password = Some ''pw123''\<rparr>))
        \<lparr>cred_username = Some ''alice'', cred_password = Some ''hunter2''\<rparr> =
       (Inr \<lparr>status = 400, body = JObj [(''error'', JStr ''Username already exists'')]\<rparr>,
        snd (register example_env empty_app
               \<lparr>cred_username = Some ''alice'', cred_password = Some ''pw123''\<rparr>))"
proof -
  let ?r = "jsonify (JObj [(''status'', JStr ''success''),
           (''user'', JObj [(''id'', JInt 1), (''username'', JStr ''alice''),
                            (''role'', JStr ''user'')])])"
  have h1: "fst (register example_env empty_app
         \<lparr>cred_username = Some ''alice'', cred_password = Some ''pw123''\<rparr>) = Inr ?r"
    by (simp only: example_first_register fst_conv)
  have h2: "status ?r = 200"
    by (simp add: jsonify_def)
  have h3: "''hunter2'' \<noteq> []"
    by simp
  from h1 h2 h3 register_twice [OF h1 h2 h3, THEN conjunct1]
  show ?thesis by (intro conjI)
qed

text \<open>
  Claim C3 as stated fails for an empty second password: the second attempt is then
  refused by the check of the fields, with \<open>Username and password required\<close>, before the
  database is asked; it is not the duplicate-username failure.
\<close>

theorem register_twice_empty_password:
  "fst (register example_env empty_app
         \<lparr>cred_username = Some ''alice'', cred_password = Some ''pw123''\<rparr>) =
     Inr (jsonify (JObj [(''status'', JStr ''success''),
           (''user'', JObj [(''id'', JInt 1), (''username'', JStr ''alice''),
                            (''role'', JStr ''user'')])]))
   \<and> fst (register example_env
        (snd (register example_env empty_app
               \<lparr>cred_username = Some ''alice'', cred_password = Some ''pw123''\<rparr>))
        \<lparr>cred_username = Some ''alice'', cred_password = Some []\<rparr>) =
       Inr \<lparr>status = 400, body = JObj [(''error'', JStr ''Username and password required'')]\<rparr>
   \<and> fst (register example_env
        (snd (register example_env empty_app
               \<lparr>cred_username = Some ''alice'', cred_password = Some ''pw123''\<rparr>))
        \<lparr>cred_username = Some ''alice'', cred_password = Some []\<rparr>) \<noteq>
       Inr \<lparr>status = 400, body = JObj [(''error'', JStr ''Username already exists'')]\<rparr>"
proof -
  have "cred_username \<lparr>cred_username = Some ''alice'', cred_password = Some []\<rparr> = None
      \<or> cred_username \<lparr>cred_username = Some ''alice'', cred_password = Some []\<rparr> = Some []
      \<or> cred_password \<lparr>cred_username = Some ''alice'', cred_password = Some []\<rparr> = None
      \<or> cred_password \<lparr>cred_username = Some ''alice'', cred_password = Some []\<rparr> = Some []"
    by simp
  note inv = register_invalid [OF this]
  show ?thesis
    by (simp add: inv example_first_register jsonify_status_def jsonify_def error_body_def)
qed

subsection \<open>The answers of login\<close>

text \<open>For a password given as a string, a wrong password for a registered name and any
  password for an unknown name get the same answer and leave the same state.\<close>

lemma login_wrong_password_generic:
  assumes "filter (\<lambda>r. users_username r = u) (users (db s)) = r # rs"
    and "\<not> check_password_hash E (users_password_hash r) p"
    and "filter (\<lambda>r. users_username r = u') (users (db s)) = []"
  shows "login E s \<lparr>cred_username = Some u, cred_password = Some p\<rparr> =
           (Inr (jsonify_status (error_body ''Invalid username or password'') 401), s)
       \<and> login E s \<lparr>cred_username = Some u', cred_password = pw'\<rparr> =
           (Inr (jsonify_status (error_body ''Invalid username or password'') 401), s)"
proof -
  have c: "cred_username \<lparr>cred_username = Some u, cred_password = Some p\<rparr> = Some u"
    by simp
  have "login E s \<lparr>cred_username = Some u, cred_password = Some p\<rparr> =
           (Inr (jsonify_status (error_body ''Invalid username or password'') 401), s)"
    using login_known [OF c assms(1), of E] assms(2) by simp
  moreover have "login E s \<lparr>cred_username = Some u', cred_password = pw'\<rparr> =
           (Inr (jsonify_status (error_body ''Invalid username or password'') 401), s)"
    using assms(3) by (simp add: login_unknown)
  ultimately show ?thesis by simp
qed

text \<open>
  Claim C4 fails on the code where the request has no password. For the registered name
  alice, \<open>check_password_hash\<close> is called with \<open>None\<close> and raises; the exception leaves
  \<open>login\<close> (status 500). For the unknown name bob the same request is answered 401
  \<open>Invalid username or password\<close>. The two answers differ, so the answer tells whether the
  name is registered.
\<close>

theorem login_without_password_tells_users_apart:
  "login example_env anonymous_app \<lparr>cred_username = Some ''alice'', cred_password = None\<rparr> =
     (Inl (Exn AttributeError ''NoneType object has no attribute encode''), anonymous_app)
   \<and> login example_env anonymous_app \<lparr>cred_username = Some ''bob'', cred_password = None\<rparr> =
     (Inr \<lparr>status = 401, body = JObj [(''error'', JStr ''Invalid username or password'')]\<rparr>,
      anonymous_app)"
proof -
  have a: "filter (\<lambda>r. users_username r = ''alice'') (users (db anonymous_app)) = [alice_row]"
    by (simp add: anonymous_app_def example_db_def alice_row_def)
  have b: "filter (\<lambda>r. users_username r = ''bob'') (users (db anonymous_app)) = []"
    by (simp add: anonymous_app_def example_db_def alice_row_def)
  have ca: "cred_username \<lparr>cred_username = Some ''alice'', cred_password = None\<rparr> =
              Some ''alice''"
    by simp
  have "login example_env anonymous_app
          \<lparr>cred_username = Some ''alice'', cred_password = None\<rparr> =
     (Inl (Exn AttributeError ''NoneType object has no attribute encode''), anonymous_app)"
    using login_known [OF ca a, of example_env] by simp
  moreover have "login example_env anonymous_app
          \<lparr>cred_username = Some ''bob'', cred_password = None\<rparr> =
     (Inr \<lparr>status = 401, body = JObj [(''error'', JStr ''Invalid username or password'')]\<rparr>,
      anonymous_app)"
    using b by (simp add: login_unknown jsonify_status_def jsonify_def error_body_def)
  ultimately show ?thesis by (rule conjI)
qed

subsection \<open>Every handler keeps the primary key\<close>

lemma register_storage:
  "storage_new (db (snd (register E s data))) = storage_new (db s)"
proof (cases data)
  case (fields x y)
  show ?thesis
  proof (cases "x = None \<or> x = Some [] \<or> y = None \<or> y = Some []")
    case True
    then have "cred_username data = None \<or> cred_username data = Some []
         \<or> cred_password data = None \<or> cred_password data = Some []"
      using fields by simp
    then show ?thesis by (simp add: register_invalid)
  next
    case False
    then obtain u p where x: "x = Some u" and y: "y = Some p" and u: "u \<noteq> []" and p: "p \<noteq> []"
      by auto
    have d: "data = \<lparr>cred_username = Some u, cred_password = Some p\<rparr>"
      using fields x y by simp
    show ?thesis
    proof (cases "u \<in> set (map users_username (users (db s)))")
      case True
      then show ?thesis unfolding d by (simp add: register_duplicate [OF u p])
    next
      case False
      then show ?thesis unfolding d by (simp add: register_fresh [OF u p])
    qed
  qed
qed

lemma get_data_state: "snd (get_data E s key) = s"
  by (cases "session s ''user_id''")
     (simp_all add: get_data_def login_required_def get_data_impl_effect)

lemma set_data_pk:
  assumes "pk_unique (storage_new (db s))"
  shows "pk_unique (storage_new (db (snd (set_data E s data))))"
proof (cases "session s ''user_id''")
  case None
  with assms show ?thesis by (simp add: set_data_def login_required_def)
next
  case (Some uid)
  show ?thesis
    using assms pk_unique_run_statement [OF assms]
    by (simp add: set_data_def login_required_def Some set_data_impl_effect [OF Some]
        split: sum.splits)
qed

lemma remove_data_pk:
  assumes "pk_unique (storage_new (db s))"
  shows "pk_unique (storage_new (db (snd (remove_data E s key))))"
proof (cases "session s ''user_id''")
  case None
  with assms show ?thesis by (simp add: remove_data_def login_required_def)
next
  case (Some uid)
  show ?thesis
    using assms pk_unique_run_statement [OF assms]
    by (simp add: remove_data_def login_required_def Some remove_data_impl_effect [OF Some]
        split: sum.splits)
qed

lemma chat_state: "snd (chat E s data) = s"
  by (simp add: chat_def login_required_def chat_impl_def Let_def split: sum.splits)

lemma handle_pk_unique:
  assumes "pk_unique (storage_new (db s))"
  shows "pk_unique (storage_new (db (snd (handle E s req))))"
proof (cases req)
  case (PostRegister data)
  with assms show ?thesis by (simp add: register_storage)
next
  case (PostLogin data)
  with assms show ?thesis by (simp add: login_db)
next
  case GetSession
  with assms show ?thesis by (simp add: check_session_def split: option.splits)
next
  case PostLogout
  with assms show ?thesis by (simp add: logout_def)
next
  case (GetStorage key)
  with assms show ?thesis by (simp add: get_data_state)
next
  case (PostStorage data)
  with assms show ?thesis by (simp add: set_data_pk)
next
  case (DeleteStorage key)
  with assms show ?thesis by (simp add: remove_data_pk)
next
  case (PostChat data)
  with assms show ?thesis by (simp add: chat_state)
qed

subsection \<open>Last write wins\<close>

text \<open>
  Claim C2. On a table that satisfies the primary key, \<open>set_data\<close> of \<open>v1\<close> and then of
  \<open>v2\<close> under the same key leaves exactly one row for \<open>(user_id, key)\<close>, the table
  still satisfies the primary key, and \<open>get_data\<close> answers \<open>v2\<close>. Every request
  handler, on every state, keeps the primary key of the storage table.
\<close>

theorem set_twice_then_get:
  assumes "pk_unique (storage_new (db s))"
    and "session s ''user_id'' = Some (SqlInt uid)"
    and "is_postgres (get_db E) \<longrightarrow> uid \<in> set (map users_id (users (db s)))"
    and "json_loads E (json_dumps E v2) = Some v2"
  shows "length (filter (is_entry uid k)
           (storage_new (db (snd (set_data E
              (snd (set_data E s \<lparr>req_key = Some k, req_value = Some v1\<rparr>))
              \<lparr>req_key = Some k, req_value = Some v2\<rparr>))))) = 1
       \<and> pk_unique (storage_new (db (snd (set_data E
              (snd (set_data E s \<lparr>req_key = Some k, req_value = Some v1\<rparr>))
              \<lparr>req_key = Some k, req_value = Some v2\<rparr>))))
       \<and> fst (get_data E (snd (set_data E
              (snd (set_data E s \<lparr>req_key = Some k, req_value = Some v1\<rparr>))
              \<lparr>req_key = Some k, req_value = Some v2\<rparr>)) k) = Inr (jsonify v2)
       \<and> (\<forall>E' s' req. pk_unique (storage_new (db s')) \<longrightarrow>
              pk_unique (storage_new (db (snd (handle E' s' req)))))"
proof -
  let ?s1 = "snd (set_data E s \<lparr>req_key = Some k, req_value = Some v1\<rparr>)"
  let ?s2 = "snd (set_data E ?s1 \<lparr>req_key = Some k, req_value = Some v2\<rparr>)"
  have u1: "session ?s1 ''user_id'' = Some (SqlInt uid)"
    by (simp add: set_data_ok [OF assms(2,3)] assms(2))
  have f1: "is_postgres (get_db E) \<longrightarrow> uid \<in> set (map users_id (users (db ?s1)))"
    using assms(3) by (simp add: set_data_ok [OF assms(2,3)])
  have p1: "pk_unique (storage_new (db ?s1))"
    by (rule set_data_pk [OF assms(1)])
  have p2: "pk_unique (storage_new (db ?s2))"
    by (rule set_data_pk [OF p1])
  have "filter (is_entry uid k) (storage_new (db ?s2)) \<noteq> []"
    using get_after_upsert [of uid k "Some (json_dumps E v2)" "storage_new (db ?s1)"]
    by (auto simp: set_data_ok [OF u1 f1])
  with pk_unique_one_row [OF p2, of uid k]
  have one: "length (filter (is_entry uid k) (storage_new (db ?s2))) = 1"
    by (cases "filter (is_entry uid k) (storage_new (db ?s2))") simp_all
  have g: "fst (get_data E ?s2 k) = Inr (jsonify v2)"
    using get_after_set [OF u1 f1, of k "Some v2"] assms(4) by simp
  have all: "\<forall>E' s' req. pk_unique (storage_new (db s')) \<longrightarrow>
              pk_unique (storage_new (db (snd (handle E' s' req))))"
    using handle_pk_unique by blast
  from one p2 g all show ?thesis by (intro conjI)
qed

theorem set_twice_then_get_witness:
  "pk_unique (storage_new (db example_app))
   \<and> session example_app ''user_id'' = Some (SqlInt 1)
   \<and> is_postgres (get_db example_env)
   \<and> 1 \<in> set (map users_id (users (db example_app)))
   \<and> json_loads example_env (json_dumps example_env (JInt 500)) = Some (JInt 500)
   \<and> length (filter (is_entry 1 ''budget'')
           (storage_new (db (snd (set_data example_env
              (snd (set_data example_env example_app
                     \<lparr>req_key = Some ''budget'', req_value = Some (JBool True)\<rparr>))
              \<lparr>req_key = Some ''budget'', req_value = Some (JInt 500)\<rparr>))))) = 1
   \<and> fst (get_data example_env (snd (set_data example_env
              (snd (set_data example_env example_app
                     \<lparr>req_key = Some ''budget'', req_value = Some (JBool True)\<rparr>))
              \<lparr>req_key = Some ''budget'', req_value = Some (JInt 500)\<rparr>)) ''budget'') =
       Inr (jsonify (JInt 500))
   \<and> pk_unique (storage_new (db (snd (handle example_env example_app
         (PostStorage \<lparr>req_key = Some ''budget'', req_value = Some (JInt 500)\<rparr>)))))"
proof -
  have h3: "is_postgres (get_db example_env) \<longrightarrow>
            1 \<in> set (map users_id (users (db example_app)))"
    using example_user by simp
  have h4: "json_loads example_env (json_dumps example_env (JInt 500)) = Some (JInt 500)"
    by (simp add: example_env_def example_dumps_def example_loads_def)
  note r = set_twice_then_get [OF example_pk example_session h3 h4,
      of "''budget''" "JBool True"]
  have inv: "pk_unique (storage_new (db (snd (handle example_env example_app
         (PostStorage \<lparr>req_key = Some ''budget'', req_value = Some (JInt 500)\<rparr>)))))"
    using r [THEN conjunct2, THEN conjunct2, THEN conjunct2] example_pk by blast
  from example_pk example_session is_postgres_example_env example_user h4
    r [THEN conjunct1] r [THEN conjunct2, THEN conjunct2, THEN conjunct1] inv
  show ?thesis by (intro conjI)
qed

subsection \<open>Users do not see or touch each other's entries\<close>

lemma set_data_null_key:
  assumes "session s ''user_id'' = Some (SqlInt uid)"
  shows "set_data E s \<lparr>req_key = None, req_value = rv\<rparr> =
           (Inl (not_null_violation (is_postgres (get_db E)) ''storage_new.key''), s)"
  using assms
  by (simp add: set_data_def login_required_def set_data_impl_effect sql_of_str_def
      run_statement_def)

lemma entries_of_upsert_other:
  assumes "a \<noteq> b"
  shows "entries_of b (d\<lparr>storage_new := upsert_rows a k t (storage_new d)\<rparr>) = entries_of b d"
proof -
  have m: "filter (\<lambda>r. storage_user_id r = b)
             (map (\<lambda>r. if is_entry a k r then r\<lparr>storage_value := t\<rparr> else r) rs) =
           filter (\<lambda>r. storage_user_id r = b) rs" for rs
    using assms by (induction rs) (simp_all add: is_entry_def)
  show ?thesis
    using assms by (simp add: entries_of_def upsert_rows_def m)
qed

lemma entries_of_delete_other:
  assumes "a \<noteq> b"
  shows "entries_of b (d\<lparr>storage_new := filter (\<lambda>r. \<not> is_entry a k r) (storage_new d)\<rparr>) =
         entries_of b d"
proof -
  have "filter (\<lambda>r. \<not> is_entry a k r \<and> storage_user_id r = b) rs =
        filter (\<lambda>r. storage_user_id r = b) rs" for rs
    using assms by (induction rs) (simp_all add: is_entry_def)
  then show ?thesis
    by (simp add: entries_of_def)
qed

lemma is_entry_own:
  "filter (is_entry a k) (storage_new d) = filter (\<lambda>r. storage_key r = k) (entries_of a d)"
proof -
  have "filter (is_entry a k) rs =
        filter (\<lambda>r. storage_key r = k) (filter (\<lambda>r. storage_user_id r = a) rs)" for rs
    by (induction rs) (simp_all add: is_entry_def)
  then show ?thesis
    by (simp only: entries_of_def)
qed

lemma entries_of_upsert_own:
  "entries_of a (d\<lparr>storage_new := upsert_rows a k t (storage_new d)\<rparr>) =
   upsert_rows a k t (entries_of a d)"
proof -
  have m: "filter (\<lambda>r. storage_user_id r = a)
             (map (\<lambda>r. if is_entry a k r then r\<lparr>storage_value := t\<rparr> else r) rs) =
           map (\<lambda>r. if is_entry a k r then r\<lparr>storage_value := t\<rparr> else r)
             (filter (\<lambda>r. storage_user_id r = a) rs)" for rs
    by (induction rs) simp_all
  show ?thesis
    by (simp add: entries_of_def upsert_rows_def m) (auto simp: is_entry_def)
qed

lemma entries_of_delete_own:
  "entries_of a (d\<lparr>storage_new := filter (\<lambda>r. \<not> is_entry a k r) (storage_new d)\<rparr>) =
   filter (\<lambda>r. \<not> is_entry a k r) (entries_of a d)"
proof -
  have "filter (\<lambda>r. \<not> is_entry a k r \<and> storage_user_id r = a) rs =
        filter (\<lambda>r. storage_user_id r = a \<and> \<not> is_entry a k r) rs" for rs
    by (induction rs) simp_all
  then show ?thesis
    by (simp add: entries_of_def)
qed

lemma storage_op_other_user:
  assumes "storage_op req" and "session s ''user_id'' = Some (SqlInt a)" and "a \<noteq> b"
  shows "entries_of b (db (snd (handle E s req))) = entries_of b (db s)"
proof (cases req)
  case (GetStorage key)
  then show ?thesis by (simp add: get_data_state)
next
  case (PostStorage data)
  obtain ko rv where d: "data = \<lparr>req_key = ko, req_value = rv\<rparr>"
    by (cases data) simp
  show ?thesis
  proof (cases ko)
    case None
    then show ?thesis
      by (simp add: PostStorage d set_data_null_key [OF assms(2)])
  next
    case (Some k)
    then show ?thesis
      using assms(3)
      by (simp add: PostStorage d set_data_user [OF assms(2)] entries_of_upsert_other)
  qed
next
  case (DeleteStorage key)
  then show ?thesis
    using assms(3)
    by (simp add: remove_data_user [OF assms(2)] entries_of_delete_other)
qed (use assms(1) in simp_all)

lemma storage_op_own_view:
  assumes "storage_op req"
    and "session s ''user_id'' = Some (SqlInt a)"
    and "session s2 = session s"
    and "users (db s2) = users (db s)"
    and "entries_of a (db s2) = entries_of a (db s)"
  shows "fst (handle E s2 req) = fst (handle E s req)
       \<and> entries_of a (db (snd (handle E s2 req))) = entries_of a (db (snd (handle E s req)))"
proof -
  have u2: "session s2 ''user_id'' = Some (SqlInt a)"
    using assms(2,3) by simp
  show ?thesis
  proof (cases req)
    case (GetStorage key)
    then show ?thesis
      using assms(5)
      by (simp add: get_data_user [OF assms(2)] get_data_user [OF u2] is_entry_own)
  next
    case (PostStorage data)
    obtain ko rv where d: "data = \<lparr>req_key = ko, req_value = rv\<rparr>"
      by (cases data) simp
    show ?thesis
    proof (cases ko)
      case None
      then show ?thesis
        using assms(5)
        by (simp add: PostStorage d set_data_null_key [OF assms(2)] set_data_null_key [OF u2])
    next
      case (Some k)
      then show ?thesis
        using assms(4,5)
        by (simp add: PostStorage d set_data_user [OF assms(2)] set_data_user [OF u2]
            entries_of_upsert_own)
    qed
  next
    case (DeleteStorage key)
    then show ?thesis
      using assms(5)
      by (simp add: remove_data_user [OF assms(2)] remove_data_user [OF u2]
          entries_of_delete_own)
  qed (use assms(1) in simp_all)
qed

text \<open>
  Claim C7. Let user \<open>a\<close> be logged in and \<open>b\<close> be another user, and let the request be
  a get, a set or a delete of the storage endpoints, with any key. The request leaves
  the entries of \<open>b\<close> as they were. Its answer, and the entries of \<open>a\<close> after it, are the
  same in every state \<open>s2\<close> that has the same session, the same users and the same
  entries of \<open>a\<close>: they do not depend on the entries of \<open>b\<close> or of anyone else, also not
  on an entry of \<open>b\<close> under the same key.
\<close>

theorem storage_isolation:
  assumes "storage_op req"
    and "session s ''user_id'' = Some (SqlInt a)"
    and "a \<noteq> b"
    and "session s2 = session s"
    and "users (db s2) = users (db s)"
    and "entries_of a (db s2) = entries_of a (db s)"
  shows "entries_of b (db (snd (handle E s req))) = entries_of b (db s)
       \<and> fst (handle E s2 req) = fst (handle E s req)
       \<and> entries_of a (db (snd (handle E s2 req))) = entries_of a (db (snd (handle E s req)))"
  using storage_op_other_user [OF assms(1,2,3)] storage_op_own_view [OF assms(1,2,4,5,6)]
  by simp

theorem storage_isolation_witness:
  "storage_op (GetStorage ''budget'')
   \<and> session example_app ''user_id'' = Some (SqlInt 1)
   \<and> (1::int) \<noteq> 2
   \<and> session (example_app\<lparr>db := example_db\<lparr>storage_new :=
          [\<lparr>storage_user_id = 2, storage_key = ''budget'', storage_value = Some ''500''\<rparr>]\<rparr>\<rparr>) =
       session example_app
   \<and> users (db (example_app\<lparr>db := example_db\<lparr>storage_new :=
          [\<lparr>storage_user_id = 2, storage_key = ''budget'', storage_value = Some ''500''\<rparr>]\<rparr>\<rparr>)) =
       users (db example_app)
   \<and> entries_of 1 (db (example_app\<lparr>db := example_db\<lparr>storage_new :=
          [\<lparr>storage_user_id = 2, storage_key = ''budget'', storage_value = Some ''500''\<rparr>]\<rparr>\<rparr>)) =
       entries_of 1 (db example_app)
   \<and> fst (handle example_env (example_app\<lparr>db := example_db\<lparr>storage_new :=
          [\<lparr>storage_user_id = 2, storage_key = ''budget'', storage_value = Some ''500''\<rparr>]\<rparr>\<rparr>)
          (GetStorage ''budget'')) =
       fst (handle example_env example_app (GetStorage ''budget''))
   \<and> fst (handle example_env example_app (GetStorage ''budget'')) = Inr (jsonify JNull)"
proof -
  let ?s2 = "example_app\<lparr>db := example_db\<lparr>storage_new :=
          [\<lparr>storage_user_id = 2, storage_key = ''budget'', storage_value = Some ''500''\<rparr>]\<rparr>\<rparr>"
  have h1: "storage_op (GetStorage ''budget'')"
    by simp
  have h3: "(1::int) \<noteq> 2"
    by simp
  have h4: "session ?s2 = session example_app"
    by simp
  have h5: "users (db ?s2) = users (db example_app)"
    by (simp add: example_app_def)
  have h6: "entries_of 1 (db ?s2) = entries_of 1 (db example_app)"
    by (simp add: entries_of_def example_app_def example_db_def)
  have g: "fst (handle example_env example_app (GetStorage ''budget'')) = Inr (jsonify JNull)"
    by (simp add: get_data_user [OF example_session] example_no_entry get_data_result_none)
  note r = storage_isolation [OF h1 example_session h3 h4 h5 h6, of example_env]
  from h1 example_session h3 h4 h5 h6 r [THEN conjunct2, THEN conjunct1] g
  show ?thesis by (intro conjI)
qed

end
